theory Spec2Isabelle
  imports Complex_Main
begin

section \<open>Values shared by the three scripts\<close>

text \<open>
  The scripts read JSON objects with \<^verbatim>\<open>dict.get\<close>. A key of such an object is absent,
  present with the value null, or present with a value; \<^verbatim>\<open>d.get(k)\<close> reads the first
  two as \<^verbatim>\<open>None\<close>, \<^verbatim>\<open>d.get(k, default)\<close> replaces only the absent key by the default.
  Python's \<^verbatim>\<open>None\<close> is \<open>None\<close> of an option type throughout.

  Betting lines are finite decimal numbers. They are modelled as exact rationals: the
  scripts only negate them and test the sign of a sum with an integer score difference,
  and neither operation depends on rounding for finite values.
\<close>

datatype 'a jfield = Absent | Null | Val 'a

definition jget :: "'a jfield \<Rightarrow> 'a option" where
  "jget f = (case f of Absent \<Rightarrow> None | Null \<Rightarrow> None | Val v \<Rightarrow> Some v)"

definition jget_or :: "'a \<Rightarrow> 'a jfield \<Rightarrow> 'a option" where
  "jget_or d f = (case f of Absent \<Rightarrow> Some d | Null \<Rightarrow> None | Val v \<Rightarrow> Some v)"

definition jset :: "'a option \<Rightarrow> 'a jfield" where
  "jset v = (case v of None \<Rightarrow> Null | Some x \<Rightarrow> Val x)"

text \<open>Truthiness, as \<^verbatim>\<open>not x\<close> tests it: \<^verbatim>\<open>None\<close>, the empty string and 0 are false.\<close>

definition falsy_str :: "string option \<Rightarrow> bool" where
  "falsy_str s = (case s of None \<Rightarrow> True | Some t \<Rightarrow> t = [])"

definition falsy_int :: "int option \<Rightarrow> bool" where
  "falsy_int n = (case n of None \<Rightarrow> True | Some k \<Rightarrow> k = 0)"

text \<open>\<^verbatim>\<open>str(n)\<close> of an integer, which the f-strings of the join keys apply.\<close>

definition digit_char :: "nat \<Rightarrow> char" where
  "digit_char d = ''0123456789'' ! d"

function str_nat :: "nat \<Rightarrow> string" where
  "str_nat n = (if n < 10 then [digit_char n] else str_nat (n div 10) @ [digit_char (n mod 10)])"
  by pat_completeness auto
termination
  by (relation "measure (\<lambda>n. n)") auto

declare str_nat.simps [simp del]

definition str_int :: "int \<Rightarrow> string" where
  "str_int i = (if i < 0 then CHR ''-'' # str_nat (nat (- i)) else str_nat (nat i))"

definition fmt_int :: "int option \<Rightarrow> string" where
  "fmt_int v = (case v of None \<Rightarrow> ''None'' | Some i \<Rightarrow> str_int i)"

definition fmt_str :: "string option \<Rightarrow> string" where
  "fmt_str v = (case v of None \<Rightarrow> ''None'' | Some s \<Rightarrow> s)"

section \<open>Outcome calculation (both importers)\<close>

text \<open>
  \<^verbatim>\<open>calculate_spread_result\<close> and \<^verbatim>\<open>calculate_ou_result\<close> of
  \<^verbatim>\<open>import-nfl-spreads.py\<close>. Scores are integers, lines are numbers.
\<close>

definition calculate_spread_result :: "int option \<Rightarrow> int option \<Rightarrow> rat option \<Rightarrow> string option" where
  "calculate_spread_result home_score away_score spread =
     (if spread = None \<or> home_score = None \<or> away_score = None then None
      else let margin = of_int (the home_score - the away_score) + the spread in
        if margin > 0 then Some ''COVERED''
        else if margin < 0 then Some ''LOST''
        else Some ''PUSH'')"

definition calculate_ou_result :: "int option \<Rightarrow> int option \<Rightarrow> rat option \<Rightarrow> string option" where
  "calculate_ou_result home_score away_score over_under =
     (if over_under = None \<or> home_score = None \<or> away_score = None then None
      else let total = of_int (the home_score + the away_score) in
        if total > the over_under then Some ''OVER''
        else if total < the over_under then Some ''UNDER''
        else Some ''PUSH'')"

text \<open>The same two functions as \<^verbatim>\<open>import-nfl-spreadspoke.py\<close> defines them again.\<close>

definition ss_calculate_spread_result :: "int option \<Rightarrow> int option \<Rightarrow> rat option \<Rightarrow> string option" where
  "ss_calculate_spread_result home_score away_score spread =
     (if spread = None \<or> home_score = None \<or> away_score = None then None
      else let margin = of_int (the home_score - the away_score) + the spread in
        if margin > 0 then Some ''COVERED''
        else if margin < 0 then Some ''LOST''
        else Some ''PUSH'')"

definition ss_calculate_ou_result :: "int option \<Rightarrow> int option \<Rightarrow> rat option \<Rightarrow> string option" where
  "ss_calculate_ou_result home_score away_score over_under =
     (if over_under = None \<or> home_score = None \<or> away_score = None then None
      else let total = of_int (the home_score + the away_score) in
        if total > the over_under then Some ''OVER''
        else if total < the over_under then Some ''UNDER''
        else Some ''PUSH'')"

section \<open>The game records of the staging file\<close>

text \<open>
  One object of \<^verbatim>\<open>nfl-games-staging.json\<close>. The week is held as the string that
  \<^verbatim>\<open>str\<close> and the f-strings make of it.
\<close>

record game =
  g_season :: "int jfield"
  g_week :: "string jfield"
  g_homeTeamCanonical :: "string jfield"
  g_awayTeamCanonical :: "string jfield"
  g_gameDate :: "string jfield"
  g_dayOfWeek :: "string jfield"
  g_homeScore :: "int jfield"
  g_awayScore :: "int jfield"
  g_spread :: "rat jfield"
  g_overUnder :: "rat jfield"
  g_spreadResult :: "string jfield"
  g_ouResult :: "string jfield"
  g_isPlayoff :: "bool jfield"
  g_isPrimetime :: "bool jfield"
  g_primetimeSlot :: "string jfield"
  g_isNeutralSite :: "bool jfield"
  g_temperature :: "rat jfield"
  g_windMph :: "rat jfield"
  g_weatherCategory :: "string jfield"
  g_homeRestDays :: "int jfield"
  g_homeIsByeWeek :: "bool jfield"
  g_awayRestDays :: "int jfield"
  g_awayIsByeWeek :: "bool jfield"

text \<open>The counters of the fill loop of either importer.\<close>

record fill_report =
  filled :: nat
  not_found :: nat
  already_has :: nat
  by_season :: "int jfield \<Rightarrow> nat"

definition fill_report0 :: fill_report where
  "fill_report0 = \<lparr>filled = 0, not_found = 0, already_has = 0, by_season = (\<lambda>_. 0)\<rparr>"

section \<open>import-nfl-spreadspoke.py\<close>

definition SPREADSPOKE_ABBREV_MAP :: "string \<rightharpoonup> string" where
  "SPREADSPOKE_ABBREV_MAP = map_of
    [(''ARI'', ''Arizona Cardinals''), (''ATL'', ''Atlanta Falcons''),
     (''BAL'', ''Baltimore Ravens''), (''BUF'', ''Buffalo Bills''),
     (''CAR'', ''Carolina Panthers''), (''CHI'', ''Chicago Bears''),
     (''CIN'', ''Cincinnati Bengals''), (''CLE'', ''Cleveland Browns''),
     (''DAL'', ''Dallas Cowboys''), (''DEN'', ''Denver Broncos''),
     (''DET'', ''Detroit Lions''), (''GB'', ''Green Bay Packers''),
     (''IND'', ''Indianapolis Colts''), (''JAX'', ''Jacksonville Jaguars''),
     (''KC'', ''Kansas City Chiefs''), (''LAC'', ''Los Angeles Chargers''),
     (''LAR'', ''Los Angeles Rams''), (''MIA'', ''Miami Dolphins''),
     (''MIN'', ''Minnesota Vikings''), (''NE'', ''New England Patriots''),
     (''NO'', ''New Orleans Saints''), (''NYG'', ''New York Giants''),
     (''NYJ'', ''New York Jets''), (''OAK'', ''Las Vegas Raiders''),
     (''PHI'', ''Philadelphia Eagles''), (''PIT'', ''Pittsburgh Steelers''),
     (''SD'', ''Los Angeles Chargers''), (''SEA'', ''Seattle Seahawks''),
     (''SF'', ''San Francisco 49ers''), (''STL'', ''Los Angeles Rams''),
     (''TB'', ''Tampa Bay Buccaneers''), (''TEN'', ''Tennessee Titans''),
     (''WAS'', ''Washington Commanders'')]"

definition SPREADSPOKE_NAME_TO_CANONICAL :: "string \<rightharpoonup> string" where
  "SPREADSPOKE_NAME_TO_CANONICAL = map_of
    [(''Arizona Cardinals'', ''Arizona Cardinals''), (''Atlanta Falcons'', ''Atlanta Falcons''),
     (''Baltimore Ravens'', ''Baltimore Ravens''), (''Buffalo Bills'', ''Buffalo Bills''),
     (''Carolina Panthers'', ''Carolina Panthers''), (''Chicago Bears'', ''Chicago Bears''),
     (''Cincinnati Bengals'', ''Cincinnati Bengals''), (''Cleveland Browns'', ''Cleveland Browns''),
     (''Dallas Cowboys'', ''Dallas Cowboys''), (''Denver Broncos'', ''Denver Broncos''),
     (''Detroit Lions'', ''Detroit Lions''), (''Green Bay Packers'', ''Green Bay Packers''),
     (''Houston Texans'', ''Houston Texans''), (''Indianapolis Colts'', ''Indianapolis Colts''),
     (''Jacksonville Jaguars'', ''Jacksonville Jaguars''), (''Kansas City Chiefs'', ''Kansas City Chiefs''),
     (''Los Angeles Rams'', ''Los Angeles Rams''), (''Los Angeles Chargers'', ''Los Angeles Chargers''),
     (''Las Vegas Raiders'', ''Las Vegas Raiders''), (''Miami Dolphins'', ''Miami Dolphins''),
     (''Minnesota Vikings'', ''Minnesota Vikings''), (''New England Patriots'', ''New England Patriots''),
     (''New Orleans Saints'', ''New Orleans Saints''), (''New York Giants'', ''New York Giants''),
     (''New York Jets'', ''New York Jets''), (''Philadelphia Eagles'', ''Philadelphia Eagles''),
     (''Pittsburgh Steelers'', ''Pittsburgh Steelers''), (''San Francisco 49ers'', ''San Francisco 49ers''),
     (''Seattle Seahawks'', ''Seattle Seahawks''), (''Tampa Bay Buccaneers'', ''Tampa Bay Buccaneers''),
     (''Tennessee Titans'', ''Tennessee Titans''), (''Washington Commanders'', ''Washington Commanders''),
     (''Baltimore Colts'', ''Indianapolis Colts''), (''Houston Oilers'', ''Tennessee Titans''),
     (''Los Angeles Raiders'', ''Las Vegas Raiders''), (''Oakland Raiders'', ''Las Vegas Raiders''),
     (''Phoenix Cardinals'', ''Arizona Cardinals''), (''San Diego Chargers'', ''Los Angeles Chargers''),
     (''St. Louis Cardinals'', ''Arizona Cardinals''), (''St. Louis Rams'', ''Los Angeles Rams''),
     (''Tennessee Oilers'', ''Tennessee Titans''), (''Washington Redskins'', ''Washington Commanders'')]"

text \<open>
  A row of the Spreadspoke CSV as \<^verbatim>\<open>csv.DictReader\<close> yields it: every column a string.
  The rows are those of a file whose header has the seven columns the script reads.
\<close>

record ss_row =
  schedule_season :: string
  schedule_date :: string
  team_home :: string
  team_away :: string
  team_favorite_id :: string
  spread_favorite :: string
  over_under_line :: string

text \<open>
  The library functions the script applies to the columns are parameters of the model:
  \<^verbatim>\<open>int\<close> and \<^verbatim>\<open>float\<close>, where \<open>None\<close> stands for the \<^verbatim>\<open>ValueError\<close> they raise,
  and \<^verbatim>\<open>datetime.strptime(s, "%m/%d/%Y").strftime("%Y-%m-%d")\<close>, where \<open>None\<close> stands for
  the \<^verbatim>\<open>ValueError\<close> of \<^verbatim>\<open>strptime\<close>, which the script catches.
\<close>

record pylib =
  py_int :: "string \<Rightarrow> int option"
  py_float :: "string \<Rightarrow> rat option"
  strptime_mdY :: "string \<Rightarrow> string option"

datatype py_error = ValueError

text \<open>\<^verbatim>\<open>str.strip()\<close>, on the whitespace characters of ASCII.\<close>

definition is_space :: "char \<Rightarrow> bool" where
  "is_space c = (c \<in> set [CHR '' '', CHR 0x09, CHR 0x0A, CHR 0x0B, CHR 0x0C, CHR 0x0D,
                           CHR 0x1C, CHR 0x1D, CHR 0x1E, CHR 0x1F])"

definition strip :: "string \<Rightarrow> string" where
  "strip s = rev (dropWhile is_space (rev (dropWhile is_space s)))"

record ss_entry =
  e_spread :: rat
  e_over_under :: "rat option"

type_synonym ss_index = "(string \<times> string) \<rightharpoonup> ss_entry"

text \<open>
  Lines 214 to 245: the spread from the home team's perspective. \<open>None\<close> is the
  \<^verbatim>\<open>continue\<close> of the branches that give the row up.
\<close>

definition home_spread_of :: "string \<Rightarrow> rat \<Rightarrow> string \<Rightarrow> string \<Rightarrow> string option \<Rightarrow> rat option" where
  "home_spread_of fav_id spread_fav home_name away_name home_canonical =
     (if fav_id = ''PICK'' \<or> fav_id = [] then Some 0
      else let fav_canonical = SPREADSPOKE_ABBREV_MAP fav_id in
        if falsy_str fav_canonical then None
        else let away_canonical = SPREADSPOKE_NAME_TO_CANONICAL away_name in
          if fav_canonical = home_canonical then Some (- spread_fav)
          else if fav_canonical = away_canonical then Some spread_fav
          else let home_hist_canonical =
                     (case SPREADSPOKE_NAME_TO_CANONICAL home_name of None \<Rightarrow> home_name | Some c \<Rightarrow> c);
                   away_hist_canonical =
                     (case SPREADSPOKE_NAME_TO_CANONICAL away_name of None \<Rightarrow> away_name | Some c \<Rightarrow> c)
               in if fav_canonical = Some home_hist_canonical then Some (- spread_fav)
                  else if fav_canonical = Some away_hist_canonical then Some spread_fav
                  else None)"

text \<open>The body of the loop over \<^verbatim>\<open>ss_with_spread\<close> (lines 195 to 251).\<close>

definition ss_index_row :: "pylib \<Rightarrow> ss_row \<Rightarrow> ss_index \<Rightarrow> py_error + ss_index" where
  "ss_index_row lib row idx =
     (case py_int lib (schedule_season row) of
        None \<Rightarrow> Inl ValueError
      | Some season \<Rightarrow>
          let home_name = team_home row;
              home_canonical = SPREADSPOKE_NAME_TO_CANONICAL home_name
          in if falsy_str home_canonical then Inr idx
             else (case strptime_mdY lib (schedule_date row) of
                None \<Rightarrow> Inr idx
              | Some date_str \<Rightarrow>
                  let fav_id = strip (team_favorite_id row) in
                  (case py_float lib (spread_favorite row) of
                     None \<Rightarrow> Inl ValueError
                   | Some spread_fav \<Rightarrow>
                       if strip (over_under_line row) \<noteq> [] \<and> py_float lib (over_under_line row) = None
                       then Inl ValueError
                       else let ou_line = (if strip (over_under_line row) \<noteq> []
                                           then py_float lib (over_under_line row) else None)
                       in (case home_spread_of fav_id spread_fav home_name (team_away row) home_canonical of
                             None \<Rightarrow> Inr idx
                           | Some home_spread \<Rightarrow>
                               Inr (idx((date_str, the home_canonical) \<mapsto>
                                      \<lparr>e_spread = home_spread, e_over_under = ou_line\<rparr>))))))"

fun ss_index_rows :: "pylib \<Rightarrow> ss_row list \<Rightarrow> ss_index \<Rightarrow> py_error + ss_index" where
  "ss_index_rows lib [] idx = Inr idx"
| "ss_index_rows lib (row # rows) idx =
     (case ss_index_row lib row idx of
        Inl e \<Rightarrow> Inl e
      | Inr idx' \<Rightarrow> ss_index_rows lib rows idx')"

definition ss_build_index :: "pylib \<Rightarrow> ss_row list \<Rightarrow> py_error + ss_index" where
  "ss_build_index lib ss_rows =
     (let ss_with_spread = filter (\<lambda>r. strip (spread_favorite r) \<noteq> []) ss_rows
      in ss_index_rows lib ss_with_spread Map.empty)"

text \<open>The body of the fill loop (lines 261 to 288): the game and the counters after it.\<close>

definition ss_fill_game :: "ss_index \<Rightarrow> game \<Rightarrow> fill_report \<Rightarrow> game \<times> fill_report" where
  "ss_fill_game ss_idx game rep =
     (if jget (g_spread game) \<noteq> None then (game, rep\<lparr>already_has := already_has rep + 1\<rparr>)
      else let home = jget_or [] (g_homeTeamCanonical game);
               date_str = jget_or [] (g_gameDate game)
        in if falsy_str home \<or> falsy_str date_str then (game, rep)
           else (case ss_idx (the date_str, the home) of
              Some m \<Rightarrow>
                (game\<lparr>g_spread := Val (e_spread m),
                      g_overUnder := jset (e_over_under m),
                      g_spreadResult := jset (ss_calculate_spread_result
                         (jget (g_homeScore game)) (jget (g_awayScore game)) (Some (e_spread m))),
                      g_ouResult := jset (ss_calculate_ou_result
                         (jget (g_homeScore game)) (jget (g_awayScore game)) (e_over_under m))\<rparr>,
                 rep\<lparr>filled := filled rep + 1,
                     by_season := (by_season rep)(g_season game := by_season rep (g_season game) + 1)\<rparr>)
            | None \<Rightarrow> (game, rep\<lparr>not_found := not_found rep + 1\<rparr>)))"

fun ss_fill_games :: "ss_index \<Rightarrow> game list \<Rightarrow> fill_report \<Rightarrow> game list \<times> fill_report" where
  "ss_fill_games ss_idx [] rep = ([], rep)"
| "ss_fill_games ss_idx (game # games) rep =
     (case ss_fill_game ss_idx game rep of
        (game', rep') \<Rightarrow> (case ss_fill_games ss_idx games rep' of
           (games', rep'') \<Rightarrow> (game' # games', rep'')))"

definition ss_main :: "pylib \<Rightarrow> game list \<Rightarrow> ss_row list \<Rightarrow> py_error + (game list \<times> fill_report)" where
  "ss_main lib games ss_rows =
     (case ss_build_index lib ss_rows of
        Inl e \<Rightarrow> Inl e
      | Inr ss_idx \<Rightarrow> Inr (ss_fill_games ss_idx games fill_report0))"

section \<open>import-nfl-spreads.py\<close>

text \<open>
  \<^verbatim>\<open>TEAM_ABBREV_MAP\<close>, the same table in \<^verbatim>\<open>import-nfl-spreads.py\<close> and in
  \<^verbatim>\<open>normalize-player-games.py\<close>.
\<close>

definition TEAM_ABBREV_MAP :: "string \<rightharpoonup> string" where
  "TEAM_ABBREV_MAP = map_of
    [(''ARI'', ''Arizona Cardinals''), (''ATL'', ''Atlanta Falcons''),
     (''BAL'', ''Baltimore Ravens''), (''BUF'', ''Buffalo Bills''),
     (''CAR'', ''Carolina Panthers''), (''CHI'', ''Chicago Bears''),
     (''CIN'', ''Cincinnati Bengals''), (''CLE'', ''Cleveland Browns''),
     (''DAL'', ''Dallas Cowboys''), (''DEN'', ''Denver Broncos''),
     (''DET'', ''Detroit Lions''), (''GB'', ''Green Bay Packers''),
     (''HOU'', ''Houston Texans''), (''IND'', ''Indianapolis Colts''),
     (''JAX'', ''Jacksonville Jaguars''), (''KC'', ''Kansas City Chiefs''),
     (''LA'', ''Los Angeles Rams''), (''LAC'', ''Los Angeles Chargers''),
     (''LAR'', ''Los Angeles Rams''), (''LV'', ''Las Vegas Raiders''),
     (''MIA'', ''Miami Dolphins''), (''MIN'', ''Minnesota Vikings''),
     (''NE'', ''New England Patriots''), (''NO'', ''New Orleans Saints''),
     (''NYG'', ''New York Giants''), (''NYJ'', ''New York Jets''),
     (''PHI'', ''Philadelphia Eagles''), (''PIT'', ''Pittsburgh Steelers''),
     (''SEA'', ''Seattle Seahawks''), (''SF'', ''San Francisco 49ers''),
     (''TB'', ''Tampa Bay Buccaneers''), (''TEN'', ''Tennessee Titans''),
     (''WAS'', ''Washington Commanders''), (''OAK'', ''Las Vegas Raiders''),
     (''SD'', ''Los Angeles Chargers''), (''STL'', ''Los Angeles Rams'')]"

definition GAME_TYPE_MAP :: "string \<rightharpoonup> string" where
  "GAME_TYPE_MAP = map_of
    [(''WC'', ''WildCard''), (''DIV'', ''Division''), (''CON'', ''ConfChamp''), (''SB'', ''SuperBowl'')]"

text \<open>A row of the nflverse schedule, with the columns the script reads.\<close>

record sched_row =
  sr_season :: int
  sr_game_type :: string
  sr_week :: int
  sr_home_team :: string
  sr_spread_line :: "rat option"
  sr_total_line :: "rat option"

record nv_entry =
  spread_line :: "rat option"
  total_line :: "rat option"

type_synonym nv_index = "(int \<times> string \<times> string) \<rightharpoonup> nv_entry"

text \<open>The body of the loop over the schedule (lines 143 to 168).\<close>

definition nv_index_row :: "sched_row \<Rightarrow> nv_index \<Rightarrow> nv_index" where
  "nv_index_row row idx =
     (let home_canonical = TEAM_ABBREV_MAP (sr_home_team row) in
      if falsy_str home_canonical then idx
      else if sr_game_type row = ''REG''
        then idx((sr_season row, str_int (sr_week row), the home_canonical) \<mapsto>
                 \<lparr>spread_line = sr_spread_line row, total_line = sr_total_line row\<rparr>)
      else (case GAME_TYPE_MAP (sr_game_type row) of
              Some week_str \<Rightarrow>
                idx((sr_season row, week_str, the home_canonical) \<mapsto>
                    \<lparr>spread_line = sr_spread_line row, total_line = sr_total_line row\<rparr>)
            | None \<Rightarrow> idx))"

definition nv_build_index :: "sched_row list \<Rightarrow> nv_index" where
  "nv_build_index sched = fold nv_index_row sched Map.empty"

text \<open>The body of the fill loop (lines 178 to 205).\<close>

definition nv_fill_game :: "nv_index \<Rightarrow> game \<Rightarrow> fill_report \<Rightarrow> game \<times> fill_report" where
  "nv_fill_game nflverse_index game rep =
     (if jget (g_spread game) \<noteq> None then (game, rep\<lparr>already_has := already_has rep + 1\<rparr>)
      else let season = jget (g_season game);
               week = fmt_str (jget_or [] (g_week game));
               home = jget_or [] (g_homeTeamCanonical game)
        in if falsy_int season \<or> week = [] \<or> falsy_str home then (game, rep)
           else (case nflverse_index (the season, week, the home) of
              Some m \<Rightarrow>
                if spread_line m \<noteq> None then
                  (game\<lparr>g_spread := jset (spread_line m),
                        g_overUnder := jset (total_line m),
                        g_spreadResult := jset (calculate_spread_result
                           (jget (g_homeScore game)) (jget (g_awayScore game)) (spread_line m)),
                        g_ouResult := jset (calculate_ou_result
                           (jget (g_homeScore game)) (jget (g_awayScore game)) (total_line m))\<rparr>,
                   rep\<lparr>filled := filled rep + 1,
                       by_season := (by_season rep)(Val (the season) := by_season rep (Val (the season)) + 1)\<rparr>)
                else (game, rep\<lparr>not_found := not_found rep + 1\<rparr>)
            | None \<Rightarrow> (game, rep\<lparr>not_found := not_found rep + 1\<rparr>)))"

fun nv_fill_games :: "nv_index \<Rightarrow> game list \<Rightarrow> fill_report \<Rightarrow> game list \<times> fill_report" where
  "nv_fill_games idx [] rep = ([], rep)"
| "nv_fill_games idx (game # games) rep =
     (case nv_fill_game idx game rep of
        (game', rep') \<Rightarrow> (case nv_fill_games idx games rep' of
           (games', rep'') \<Rightarrow> (game' # games', rep'')))"

definition nv_main :: "game list \<Rightarrow> sched_row list \<Rightarrow> game list \<times> fill_report" where
  "nv_main games sched = nv_fill_games (nv_build_index sched) games fill_report0"

section \<open>normalize-player-games.py\<close>

definition PLAYOFF_WEEK_MAP :: "int \<rightharpoonup> string" where
  "PLAYOFF_WEEK_MAP = map_of
    [(18, ''WildCard''), (19, ''Division''), (20, ''ConfChamp''), (21, ''SuperBowl''),
     (22, ''SuperBowl'')]"

definition KEEP_STATS :: "string list" where
  "KEEP_STATS =
    [''player_id'', ''player_name'', ''player_display_name'',
     ''position'', ''position_group'', ''season'', ''week'', ''season_type'',
     ''team'', ''opponent_team'',
     ''completions'', ''attempts'', ''passing_yards'', ''passing_tds'',
     ''passing_interceptions'', ''sacks_suffered'', ''sack_yards_lost'',
     ''passing_air_yards'', ''passing_yards_after_catch'',
     ''passing_first_downs'', ''passing_epa'', ''passing_cpoe'', ''pacr'',
     ''passing_2pt_conversions'',
     ''carries'', ''rushing_yards'', ''rushing_tds'',
     ''rushing_fumbles'', ''rushing_fumbles_lost'',
     ''rushing_first_downs'', ''rushing_epa'', ''rushing_2pt_conversions'',
     ''targets'', ''receptions'', ''receiving_yards'', ''receiving_tds'',
     ''receiving_fumbles'', ''receiving_fumbles_lost'',
     ''receiving_air_yards'', ''receiving_yards_after_catch'',
     ''receiving_first_downs'', ''receiving_epa'',
     ''racr'', ''target_share'', ''air_yards_share'', ''wopr'',
     ''receiving_2pt_conversions'',
     ''def_tackles_solo'', ''def_tackles_with_assist'',
     ''def_tackles_for_loss'', ''def_fumbles_forced'',
     ''def_sacks'', ''def_qb_hits'', ''def_interceptions'',
     ''def_interception_yards'', ''def_pass_defended'', ''def_tds'',
     ''special_teams_tds'',
     ''fg_made'', ''fg_att'', ''fg_long'', ''fg_pct'',
     ''pat_made'', ''pat_att'',
     ''fantasy_points'', ''fantasy_points_ppr'']"

text \<open>
  A row of \<^verbatim>\<open>player-weekly-stats.json\<close>. The seven columns the join reads are typed
  fields; every other column is an entry of \<open>s_columns\<close>, its value kept as text, since the
  script only copies it.
\<close>

record stat_row =
  s_player_id :: "string option"
  s_player_display_name :: "string option"
  s_season :: "int option"
  s_week :: "int option"
  s_season_type :: "string option"
  s_team :: "string option"
  s_opponent_team :: "string option"
  s_columns :: "(string \<times> string) list"

definition typed_columns :: "string list" where
  "typed_columns = [''player_id'', ''player_display_name'', ''season'', ''week'',
                    ''season_type'', ''team'', ''opponent_team'']"

text \<open>\<^verbatim>\<open>trim_stat_row\<close>, on the columns that are not typed fields.\<close>

definition trim_stat_row :: "stat_row \<Rightarrow> (string \<times> string option) list" where
  "trim_stat_row row =
     map (\<lambda>k. (k, map_of (s_columns row) k)) (filter (\<lambda>k. k \<notin> set typed_columns) KEEP_STATS)"

record meta_row =
  m_gsis_id :: "string option"
  m_birth_date :: "string option"
  m_college :: "string option"
  m_entry_year :: "string option"
  m_draft_number :: "string option"
  m_years_exp :: "string option"
  m_jersey_number :: "string option"

record snap_row =
  n_gsis_id :: "string option"
  n_season :: "int option"
  n_week :: "int option"
  n_offense_snaps :: "string option"
  n_offense_pct :: "string option"
  n_defense_snaps :: "string option"
  n_defense_pct :: "string option"
  n_st_snaps :: "string option"
  n_st_pct :: "string option"

text \<open>The game context of an output row: the keys written at lines 302 to 389.\<close>

record game_context =
  c_gameDate :: "string option"
  c_dayOfWeek :: "string option"
  c_isHome :: "bool option"
  c_teamScore :: "int option"
  c_opponentScore :: "int option"
  c_gameResult :: "string option"
  c_spread :: "rat option"
  c_overUnder :: "rat option"
  c_spreadResult :: "string option"
  c_ouResult :: "string option"
  c_isPlayoff :: "bool option"
  c_isPrimetime :: "bool option"
  c_primetimeSlot :: "string option"
  c_isNeutralSite :: "bool option"
  c_temperature :: "rat option"
  c_windMph :: "rat option"
  c_weatherCategory :: "string option"
  c_restDays :: "int option"
  c_isByeWeek :: "bool option"

text \<open>An output row: the trimmed columns, the player metadata, the names, the snaps, the context.\<close>

record joined =
  j_player_id :: "string option"
  j_player_display_name :: "string option"
  j_season :: "int option"
  j_week :: "int option"
  j_season_type :: "string option"
  j_team :: "string option"
  j_opponent_team :: "string option"
  j_columns :: "(string \<times> string option) list"
  j_birthDate :: "string option"
  j_college :: "string option"
  j_draftYear :: "string option"
  j_draftRound :: "string option"
  j_draftPick :: "string option"
  j_yearsExp :: "string option"
  j_jerseyNumber :: "string option"
  j_teamCanonical :: string
  j_opponentCanonical :: "string option"
  j_offensiveSnaps :: "string option"
  j_offensiveSnapPct :: "string option"
  j_defensiveSnaps :: "string option"
  j_defensiveSnapPct :: "string option"
  j_stSnaps :: "string option"
  j_stSnapPct :: "string option"
  j_context :: game_context

record norm_state =
  results :: "joined list"
  matched :: nat
  unmatched :: nat
  unmatched_examples :: "string list"

definition norm_state0 :: norm_state where
  "norm_state0 = \<lparr>results = [], matched = 0, unmatched = 0, unmatched_examples = []\<rparr>"

subsection \<open>The three lookup tables\<close>

definition index_meta :: "meta_row \<Rightarrow> (string \<rightharpoonup> meta_row) \<Rightarrow> (string \<rightharpoonup> meta_row)" where
  "index_meta m meta_by_id =
     (if falsy_str (m_gsis_id m) then meta_by_id else meta_by_id(the (m_gsis_id m) \<mapsto> m))"

definition snap_key_of :: "string \<Rightarrow> int \<Rightarrow> int \<Rightarrow> string" where
  "snap_key_of gsis_id season week = gsis_id @ ''-'' @ str_int season @ ''-'' @ str_int week"

definition index_snap :: "snap_row \<Rightarrow> (string \<rightharpoonup> snap_row) \<Rightarrow> (string \<rightharpoonup> snap_row)" where
  "index_snap s snap_by_key =
     (if \<not> falsy_str (n_gsis_id s) \<and> n_season s \<noteq> None \<and> n_week s \<noteq> None
      then snap_by_key(snap_key_of (the (n_gsis_id s)) (the (n_season s)) (the (n_week s)) \<mapsto> s)
      else snap_by_key)"

definition game_key_of :: "int \<Rightarrow> string \<Rightarrow> string \<Rightarrow> string" where
  "game_key_of season week_str team = str_int season @ ''-'' @ week_str @ ''-'' @ team"

text \<open>
  Lines 188 to 207. The second table of the source, \<^verbatim>\<open>game_by_date_team\<close>, is written
  here and read nowhere, so it is left out.
\<close>

definition index_game :: "game \<Rightarrow> (string \<rightharpoonup> game) \<Rightarrow> (string \<rightharpoonup> game)" where
  "index_game g game_by_key =
     (let season = jget (g_season g);
          week = jget (g_week g);
          home = jget (g_homeTeamCanonical g);
          away = jget (g_awayTeamCanonical g)
      in if falsy_int season \<or> falsy_str home \<or> falsy_str away then game_by_key
         else (game_by_key(game_key_of (the season) (fmt_str week) (the home) \<mapsto> g))
                (game_key_of (the season) (fmt_str week) (the away) \<mapsto> g))"

definition build_game_index :: "game list \<Rightarrow> (string \<rightharpoonup> game)" where
  "build_game_index games = fold index_game games Map.empty"

subsection \<open>The join of one row\<close>

definition week_str_of :: "string option \<Rightarrow> int \<Rightarrow> string" where
  "week_str_of season_type week =
     (if season_type = Some ''POST''
      then (case PLAYOFF_WEEK_MAP week of None \<Rightarrow> str_int week | Some label \<Rightarrow> label)
      else str_int week)"

text \<open>\<^verbatim>\<open>TEAM_ABBREV_MAP.get(opp_abbrev, opp_abbrev)\<close>.\<close>

definition opp_canonical_of :: "string option \<Rightarrow> string option" where
  "opp_canonical_of opp_abbrev =
     (case opp_abbrev of
        None \<Rightarrow> None
      | Some a \<Rightarrow> (case TEAM_ABBREV_MAP a of None \<Rightarrow> Some a | Some c \<Rightarrow> Some c))"

definition game_key_opp_of :: "int \<Rightarrow> string \<Rightarrow> string option \<Rightarrow> string" where
  "game_key_opp_of season week_str opp_canonical =
     game_key_of season week_str (fmt_str opp_canonical)"

text \<open>
  Lines 250 to 257. A game of the table has its season and both names, so as a dict it is
  not empty and \<^verbatim>\<open>not game\<close> holds only of \<^verbatim>\<open>None\<close>.
\<close>

definition lookup_game :: "(string \<rightharpoonup> game) \<Rightarrow> int \<Rightarrow> string \<Rightarrow> string \<Rightarrow> string option \<Rightarrow> game option" where
  "lookup_game game_by_key season week_str team_canonical opp_canonical =
     (case game_by_key (game_key_of season week_str team_canonical) of
        Some game \<Rightarrow> Some game
      | None \<Rightarrow> game_by_key (game_key_opp_of season week_str opp_canonical))"

text \<open>\<^verbatim>\<open>str.lower()\<close> on ASCII letters, and \<^verbatim>\<open>a in b\<close> of two strings.\<close>

definition lower_char :: "char \<Rightarrow> char" where
  "lower_char c =
     (case map_of (zip ''ABCDEFGHIJKLMNOPQRSTUVWXYZ'' ''abcdefghijklmnopqrstuvwxyz'') c of
        None \<Rightarrow> c
      | Some d \<Rightarrow> d)"

definition lower :: "string \<Rightarrow> string" where
  "lower s = map lower_char s"

fun starts_with :: "string \<Rightarrow> string \<Rightarrow> bool" where
  "starts_with [] ys = True"
| "starts_with (x # xs) [] = False"
| "starts_with (x # xs) (y # ys) = (x = y \<and> starts_with xs ys)"

fun py_in :: "string \<Rightarrow> string \<Rightarrow> bool" where
  "py_in s [] = (s = [])"
| "py_in s (c # cs) = (starts_with s (c # cs) \<or> py_in s cs)"

text \<open>
  Lines 259 to 273, for a game that was found. Both names of a game of the table are
  strings (lemma \<open>build_game_index_names\<close>); the default of \<^verbatim>\<open>get\<close> stands for an absent
  key, and a null name, on which \<^verbatim>\<open>lower\<close> would raise, is read as the empty string.
\<close>

definition name_of :: "string jfield \<Rightarrow> string" where
  "name_of f = (case f of Val s \<Rightarrow> s | Absent \<Rightarrow> [] | Null \<Rightarrow> [])"

definition determine_is_home :: "string \<Rightarrow> game \<Rightarrow> bool option" where
  "determine_is_home team_canonical game =
     (let home_team = name_of (g_homeTeamCanonical game);
          away_team = name_of (g_awayTeamCanonical game)
      in if team_canonical = home_team then Some True
         else if team_canonical = away_team then Some False
         else if py_in (lower team_canonical) (lower home_team) then Some True
         else if py_in (lower team_canonical) (lower away_team) then Some False
         else None)"

text \<open>Lines 304 to 361: the context of a row whose game was found.\<close>

definition game_result_of :: "int option \<Rightarrow> int option \<Rightarrow> string option" where
  "game_result_of ts os =
     (if ts \<noteq> None \<and> os \<noteq> None
      then (if the ts > the os then Some ''W''
            else if the ts < the os then Some ''L''
            else Some ''T'')
      else None)"

definition matched_context :: "game \<Rightarrow> bool \<Rightarrow> game_context" where
  "matched_context game is_home =
     (let teamScore = (if is_home then jget (g_homeScore game) else jget (g_awayScore game));
          opponentScore = (if is_home then jget (g_awayScore game) else jget (g_homeScore game));
          raw_spread = jget (g_spread game)
      in \<lparr>c_gameDate = jget (g_gameDate game),
          c_dayOfWeek = jget (g_dayOfWeek game),
          c_isHome = Some is_home,
          c_teamScore = teamScore,
          c_opponentScore = opponentScore,
          c_gameResult = game_result_of teamScore opponentScore,
          c_spread = (case raw_spread of
                        None \<Rightarrow> None
                      | Some r \<Rightarrow> Some (if is_home then r else - r)),
          c_overUnder = jget (g_overUnder game),
          c_spreadResult = jget (g_spreadResult game),
          c_ouResult = jget (g_ouResult game),
          c_isPlayoff = jget_or False (g_isPlayoff game),
          c_isPrimetime = jget_or False (g_isPrimetime game),
          c_primetimeSlot = jget (g_primetimeSlot game),
          c_isNeutralSite = jget_or False (g_isNeutralSite game),
          c_temperature = jget (g_temperature game),
          c_windMph = jget (g_windMph game),
          c_weatherCategory = jget (g_weatherCategory game),
          c_restDays = (if is_home then jget (g_homeRestDays game) else jget (g_awayRestDays game)),
          c_isByeWeek = (if is_home then jget (g_homeIsByeWeek game)
                         else jget (g_awayIsByeWeek game))\<rparr>)"

text \<open>Lines 370 to 389: the context of a row without a game.\<close>

definition unmatched_context :: "string option \<Rightarrow> game_context" where
  "unmatched_context season_type =
     \<lparr>c_gameDate = None, c_dayOfWeek = None, c_isHome = None, c_teamScore = None,
      c_opponentScore = None, c_gameResult = None, c_spread = None, c_overUnder = None,
      c_spreadResult = None, c_ouResult = None,
      c_isPlayoff = Some (season_type = Some ''POST''),
      c_isPrimetime = None, c_primetimeSlot = None, c_isNeutralSite = None,
      c_temperature = None, c_windMph = None, c_weatherCategory = None,
      c_restDays = None, c_isByeWeek = None\<rparr>"

text \<open>Lines 275 to 300: the row before its context is written.\<close>

definition trimmed_row ::
  "(string \<rightharpoonup> meta_row) \<Rightarrow> (string \<rightharpoonup> snap_row) \<Rightarrow> stat_row \<Rightarrow> string \<Rightarrow> string option
     \<Rightarrow> game_context \<Rightarrow> joined" where
  "trimmed_row meta_by_id snap_by_key stat team_canonical opp_canonical context =
     (let meta = meta_by_id (the (s_player_id stat));
          snap = snap_by_key (snap_key_of (the (s_player_id stat)) (the (s_season stat))
                                (the (s_week stat)))
      in \<lparr>j_player_id = s_player_id stat,
          j_player_display_name = s_player_display_name stat,
          j_season = s_season stat,
          j_week = s_week stat,
          j_season_type = s_season_type stat,
          j_team = s_team stat,
          j_opponent_team = s_opponent_team stat,
          j_columns = trim_stat_row stat,
          j_birthDate = Option.bind meta m_birth_date,
          j_college = Option.bind meta m_college,
          j_draftYear = Option.bind meta m_entry_year,
          j_draftRound = None,
          j_draftPick = Option.bind meta m_draft_number,
          j_yearsExp = Option.bind meta m_years_exp,
          j_jerseyNumber = Option.bind meta m_jersey_number,
          j_teamCanonical = team_canonical,
          j_opponentCanonical = opp_canonical,
          j_offensiveSnaps = Option.bind snap n_offense_snaps,
          j_offensiveSnapPct = Option.bind snap n_offense_pct,
          j_defensiveSnaps = Option.bind snap n_defense_snaps,
          j_defensiveSnapPct = Option.bind snap n_defense_pct,
          j_stSnaps = Option.bind snap n_st_snaps,
          j_stSnapPct = Option.bind snap n_st_pct,
          j_context = context\<rparr>)"

definition unmatched_example :: "stat_row \<Rightarrow> string" where
  "unmatched_example stat =
     ''  '' @ fmt_str (s_player_display_name stat) @ '' ('' @ fmt_str (s_team stat)
       @ '') season='' @ fmt_int (s_season stat) @ '' week='' @ fmt_int (s_week stat)
       @ '' type='' @ fmt_str (s_season_type stat)"

text \<open>
  The body of the loop over the rows (lines 219 to 391): the two guards that leave the
  loop body with \<^verbatim>\<open>continue\<close>, the lookup, and the row that is appended.
\<close>

definition normalize_row ::
  "(string \<rightharpoonup> meta_row) \<Rightarrow> (string \<rightharpoonup> snap_row) \<Rightarrow> (string \<rightharpoonup> game) \<Rightarrow> stat_row
     \<Rightarrow> norm_state \<Rightarrow> norm_state" where
  "normalize_row meta_by_id snap_by_key game_by_key stat st =
     (let player_id = s_player_id stat;
          season = s_season stat;
          week = s_week stat;
          season_type = s_season_type stat;
          team_abbrev = s_team stat;
          opp_abbrev = s_opponent_team stat
      in if falsy_str player_id \<or> falsy_int season \<or> week = None \<or> falsy_str team_abbrev
         then st\<lparr>unmatched := unmatched st + 1\<rparr>
         else let team_canonical = TEAM_ABBREV_MAP (the team_abbrev);
                  opp_canonical = opp_canonical_of opp_abbrev
           in if falsy_str team_canonical
              then st\<lparr>unmatched := unmatched st + 1\<rparr>
              else let week_str = week_str_of season_type (the week);
                       game = lookup_game game_by_key (the season) week_str (the team_canonical)
                                opp_canonical;
                       is_home = (case game of
                                    None \<Rightarrow> None
                                  | Some g \<Rightarrow> determine_is_home (the team_canonical) g)
                in (case game of
                      Some g \<Rightarrow>
                        (case is_home of
                           Some h \<Rightarrow>
                             st\<lparr>matched := matched st + 1,
                                results := results st @
                                  [trimmed_row meta_by_id snap_by_key stat (the team_canonical)
                                     opp_canonical (matched_context g h)]\<rparr>
                         | None \<Rightarrow>
                             st\<lparr>unmatched := unmatched st + 1,
                                unmatched_examples :=
                                  (if length (unmatched_examples st) < 10
                                   then unmatched_examples st @ [unmatched_example stat]
                                   else unmatched_examples st),
                                results := results st @
                                  [trimmed_row meta_by_id snap_by_key stat (the team_canonical)
                                     opp_canonical (unmatched_context season_type)]\<rparr>)
                    | None \<Rightarrow>
                        st\<lparr>unmatched := unmatched st + 1,
                           unmatched_examples :=
                             (if length (unmatched_examples st) < 10
                              then unmatched_examples st @ [unmatched_example stat]
                              else unmatched_examples st),
                           results := results st @
                             [trimmed_row meta_by_id snap_by_key stat (the team_canonical)
                                opp_canonical (unmatched_context season_type)]\<rparr>))"

definition normalize_rows ::
  "(string \<rightharpoonup> meta_row) \<Rightarrow> (string \<rightharpoonup> snap_row) \<Rightarrow> (string \<rightharpoonup> game) \<Rightarrow> stat_row list
     \<Rightarrow> norm_state \<Rightarrow> norm_state" where
  "normalize_rows meta_by_id snap_by_key game_by_key stats st =
     fold (normalize_row meta_by_id snap_by_key game_by_key) stats st"

definition normalize_main ::
  "stat_row list \<Rightarrow> meta_row list \<Rightarrow> snap_row list \<Rightarrow> game list \<Rightarrow> norm_state" where
  "normalize_main stats metadata snaps games =
     normalize_rows (fold index_meta metadata Map.empty) (fold index_snap snaps Map.empty)
       (build_game_index games) stats norm_state0"

text \<open>
  The two guards of the loop body as one predicate: the rows for which neither
  \<^verbatim>\<open>continue\<close> of lines 230 to 242 is taken.
\<close>

definition passes_guards :: "stat_row \<Rightarrow> bool" where
  "passes_guards stat =
     (\<not> (falsy_str (s_player_id stat) \<or> falsy_int (s_season stat) \<or> s_week stat = None
          \<or> falsy_str (s_team stat))
      \<and> \<not> falsy_str (TEAM_ABBREV_MAP (the (s_team stat))))"

text \<open>
  The row that the loop body appends for a row that passes both guards (lines 244 to 391),
  as a function of the row and the three tables. Lemma \<open>results_normalize_row\<close> shows
  that it is the row \<open>normalize_row\<close> appends.
\<close>

definition join_row ::
  "(string \<rightharpoonup> meta_row) \<Rightarrow> (string \<rightharpoonup> snap_row) \<Rightarrow> (string \<rightharpoonup> game) \<Rightarrow> stat_row \<Rightarrow> joined" where
  "join_row meta_by_id snap_by_key game_by_key stat =
     (let team_canonical = the (TEAM_ABBREV_MAP (the (s_team stat)));
          opp_canonical = opp_canonical_of (s_opponent_team stat);
          game = lookup_game game_by_key (the (s_season stat))
                   (week_str_of (s_season_type stat) (the (s_week stat))) team_canonical
                   opp_canonical
      in trimmed_row meta_by_id snap_by_key stat team_canonical opp_canonical
           (case game of
              None \<Rightarrow> unmatched_context (s_season_type stat)
            | Some g \<Rightarrow>
                (case determine_is_home team_canonical g of
                   None \<Rightarrow> unmatched_context (s_season_type stat)
                 | Some h \<Rightarrow> matched_context g h)))"

text \<open>
  The test of line 302, \<^verbatim>\<open>if game and is_home is not None\<close>, as a predicate of the table
  and the row: a game is found under one of the two keys and the team is on one of its
  sides.
\<close>

definition finds_game :: "(string \<rightharpoonup> game) \<Rightarrow> stat_row \<Rightarrow> bool" where
  "finds_game game_by_key stat =
     (let team_canonical = the (TEAM_ABBREV_MAP (the (s_team stat)));
          opp_canonical = opp_canonical_of (s_opponent_team stat);
          game = lookup_game game_by_key (the (s_season stat))
                   (week_str_of (s_season_type stat) (the (s_week stat))) team_canonical
                   opp_canonical
      in (case game of
            None \<Rightarrow> False
          | Some g \<Rightarrow> determine_is_home team_canonical g \<noteq> None))"

section \<open>Notions of the specification that the source has no function for\<close>

text \<open>
  Modelled from the spec: the favourite read back from the sign of a home-perspective
  spread, "positive = home favored, negative = away favored"; a spread of zero names no
  favourite. The source never reads the favourite back.
\<close>

definition spec_favored_franchise :: "string \<Rightarrow> string \<Rightarrow> rat \<Rightarrow> string option" where
  "spec_favored_franchise home away home_spread =
     (if home_spread > 0 then Some home
      else if home_spread < 0 then Some away
      else None)"

text \<open>
  The favourite a Spreadspoke row names (lines 214 to 218): none for a pick, the franchise
  of the abbreviation otherwise.
\<close>

definition favorite_identity :: "string \<Rightarrow> string option" where
  "favorite_identity fav_id =
     (if fav_id = ''PICK'' \<or> fav_id = [] then None else SPREADSPOKE_ABBREV_MAP fav_id)"

text \<open>The away franchise as line 237 names it.\<close>

definition away_franchise :: "string \<Rightarrow> string" where
  "away_franchise away_name =
     (case SPREADSPOKE_NAME_TO_CANONICAL away_name of None \<Rightarrow> away_name | Some c \<Rightarrow> c)"

section \<open>Sample inputs\<close>

definition blank_game :: game where
  "blank_game =
     \<lparr>g_season = Absent, g_week = Absent, g_homeTeamCanonical = Absent,
      g_awayTeamCanonical = Absent, g_gameDate = Absent, g_dayOfWeek = Absent,
      g_homeScore = Absent, g_awayScore = Absent, g_spread = Absent, g_overUnder = Absent,
      g_spreadResult = Absent, g_ouResult = Absent, g_isPlayoff = Absent,
      g_isPrimetime = Absent, g_primetimeSlot = Absent, g_isNeutralSite = Absent,
      g_temperature = Absent, g_windMph = Absent, g_weatherCategory = Absent,
      g_homeRestDays = Absent, g_homeIsByeWeek = Absent, g_awayRestDays = Absent,
      g_awayIsByeWeek = Absent\<rparr>"

text \<open>Buffalo against Miami on 7 September 1980, with a total line but no spread yet.\<close>

definition game_1980 :: game where
  "game_1980 =
     blank_game\<lparr>g_season := Val 1980, g_week := Val ''1'',
                g_homeTeamCanonical := Val ''Buffalo Bills'',
                g_awayTeamCanonical := Val ''Miami Dolphins'',
                g_gameDate := Val ''1980-09-07'',
                g_homeScore := Val 17, g_awayScore := Val 7,
                g_spread := Null, g_overUnder := Val 44\<rparr>"

text \<open>Houston against Buffalo in week 5 of 2024, without lines.\<close>

definition game_2024 :: game where
  "game_2024 =
     blank_game\<lparr>g_season := Val 2024, g_week := Val ''5'',
                g_homeTeamCanonical := Val ''Houston Texans'',
                g_awayTeamCanonical := Val ''Buffalo Bills'',
                g_gameDate := Val ''2024-10-06'',
                g_homeScore := Val 23, g_awayScore := Val 20,
                g_spread := Null, g_overUnder := Val 44\<rparr>"

text \<open>The same game with the away name in another spelling.\<close>

definition game_2024_spelled :: game where
  "game_2024_spelled = game_2024\<lparr>g_awayTeamCanonical := Val ''buffalo bills''\<rparr>"

text \<open>The same game with its lines and the rest days of both teams.\<close>

definition game_2024_lined :: game where
  "game_2024_lined =
     game_2024\<lparr>g_spread := Val (- 3), g_overUnder := Val 41,
               g_spreadResult := Val ''PUSH'', g_ouResult := Val ''OVER'',
               g_homeRestDays := Val 7, g_awayRestDays := Val 10\<rparr>"

definition sample_lib :: pylib where
  "sample_lib =
     \<lparr>py_int = (\<lambda>s. if s = ''1980'' then Some 1980 else None),
      py_float = (\<lambda>s. if s = ''-3'' then Some (- 3)
                      else if s = ''0'' then Some 0
                      else if s = ''41'' then Some 41
                      else None),
      strptime_mdY = (\<lambda>s. if s = ''09/07/1980'' then Some ''1980-09-07'' else None)\<rparr>"

definition row_1980 :: "string \<Rightarrow> string \<Rightarrow> ss_row" where
  "row_1980 fav magnitude =
     \<lparr>schedule_season = ''1980'', schedule_date = ''09/07/1980'',
      team_home = ''Buffalo Bills'', team_away = ''Miami Dolphins'',
      team_favorite_id = fav, spread_favorite = magnitude, over_under_line = ''41''\<rparr>"

definition sched_2024 :: sched_row where
  "sched_2024 =
     \<lparr>sr_season = 2024, sr_game_type = ''REG'', sr_week = 5, sr_home_team = ''HOU'',
      sr_spread_line = Some (- 3), sr_total_line = Some 41\<rparr>"

definition stat_2024 :: "string \<Rightarrow> string \<Rightarrow> stat_row" where
  "stat_2024 team opp =
     \<lparr>s_player_id = Some ''00-0034857'', s_player_display_name = Some ''Josh Allen'',
      s_season = Some 2024, s_week = Some 5, s_season_type = Some ''REG'',
      s_team = Some team, s_opponent_team = Some opp, s_columns = []\<rparr>"

definition stat_post :: stat_row where
  "stat_post =
     \<lparr>s_player_id = Some ''00-0034857'', s_player_display_name = Some ''Josh Allen'',
      s_season = Some 2024, s_week = Some 19, s_season_type = Some ''POST'',
      s_team = Some ''BUF'', s_opponent_team = Some ''BAL'', s_columns = []\<rparr>"

section \<open>Facts about the sample inputs\<close>

lemma sample_lib_simps:
  "py_int sample_lib ''1980'' = Some 1980"
  "py_float sample_lib ''-3'' = Some (- 3)"
  "py_float sample_lib ''0'' = Some 0"
  "py_float sample_lib ''41'' = Some 41"
  "strptime_mdY sample_lib ''09/07/1980'' = Some ''1980-09-07''"
  by (simp_all add: sample_lib_def)

lemma name_samples:
  "SPREADSPOKE_NAME_TO_CANONICAL ''Buffalo Bills'' = Some ''Buffalo Bills''"
  "SPREADSPOKE_NAME_TO_CANONICAL ''Miami Dolphins'' = Some ''Miami Dolphins''"
  by (simp_all add: SPREADSPOKE_NAME_TO_CANONICAL_def)

lemma abbrev_samples:
  "SPREADSPOKE_ABBREV_MAP ''BUF'' = Some ''Buffalo Bills''"
  "SPREADSPOKE_ABBREV_MAP ''MIA'' = Some ''Miami Dolphins''"
  "SPREADSPOKE_ABBREV_MAP ''DAL'' = Some ''Dallas Cowboys''"
  by (simp_all add: SPREADSPOKE_ABBREV_MAP_def)

lemma strip_samples:
  "strip ''PICK'' = ''PICK''"
  "strip [] = []"
  "strip ''BUF'' = ''BUF''"
  "strip ''MIA'' = ''MIA''"
  "strip ''DAL'' = ''DAL''"
  "strip ''41'' = ''41''"
  "strip ''-3'' = ''-3''"
  "strip ''0'' = ''0''"
  by (simp_all add: strip_def is_space_def)

lemma str_int_samples:
  "str_int 5 = ''5''"
  "str_int 19 = ''19''"
  "str_int 23 = ''23''"
  "str_int 1980 = ''1980''"
  "str_int 2024 = ''2024''"
  by (simp_all add: str_int_def str_nat.simps digit_char_def)

section \<open>The outcome of a spread\<close>

text \<open>
  C3. The spread result is null exactly when a score or the spread is missing. Otherwise
  it is COVERED when (home score - away score) + spread is positive, LOST when it is
  negative and PUSH when it is zero. The function of the Spreadspoke importer returns the
  same value as the function of the nflverse importer on all inputs.
\<close>

theorem spread_result_formula:
  "(calculate_spread_result hs as sp = None) = (hs = None \<or> as = None \<or> sp = None)
   \<and> (calculate_spread_result (Some h) (Some a) (Some s) = Some ''COVERED'')
       = (of_int h - of_int a + s > 0)
   \<and> (calculate_spread_result (Some h) (Some a) (Some s) = Some ''LOST'')
       = (of_int h - of_int a + s < 0)
   \<and> (calculate_spread_result (Some h) (Some a) (Some s) = Some ''PUSH'')
       = (of_int h - of_int a + s = 0)
   \<and> ss_calculate_spread_result hs as sp = calculate_spread_result hs as sp"
  by (auto simp: calculate_spread_result_def ss_calculate_spread_result_def Let_def)

theorem spread_result_formula_witness:
  "calculate_spread_result (Some 27) (Some 24) (Some (- 5 / 2)) = Some ''COVERED''
   \<and> ss_calculate_spread_result (Some 27) (Some 24) (Some (- 5 / 2)) = Some ''COVERED''
   \<and> calculate_spread_result (Some 27) None (Some (- 5 / 2)) = None"
  using spread_result_formula [of "Some 27" "Some 24" "Some (- 5 / 2)" 27 24 "- 5 / 2"]
        spread_result_formula [of "Some 27" None "Some (- 5 / 2)" 27 24 "- 5 / 2"]
  by simp

section \<open>The week of the join key\<close>

text \<open>
  C7. For a row of season type POST the week of the join key is the label of the
  table: 18 WildCard, 19 Division, 20 ConfChamp, 21 and 22 SuperBowl; a week outside the
  table is written as its number. For a row of any other season type the week is written
  as its number. The key is season, week and team joined by hyphens.
\<close>

theorem week_key:
  "week_str_of (Some ''POST'') 18 = ''WildCard''
   \<and> week_str_of (Some ''POST'') 19 = ''Division''
   \<and> week_str_of (Some ''POST'') 20 = ''ConfChamp''
   \<and> week_str_of (Some ''POST'') 21 = ''SuperBowl''
   \<and> week_str_of (Some ''POST'') 22 = ''SuperBowl''
   \<and> (w \<notin> {18, 19, 20, 21, 22} \<longrightarrow> week_str_of (Some ''POST'') w = str_int w)
   \<and> (season_type \<noteq> Some ''POST'' \<longrightarrow> week_str_of season_type w = str_int w)
   \<and> game_key_of season (week_str_of season_type w) team
       = str_int season @ ''-'' @ week_str_of season_type w @ ''-'' @ team"
  by (simp add: week_str_of_def PLAYOFF_WEEK_MAP_def game_key_of_def)

theorem week_key_witness:
  "(23::int) \<notin> {18, 19, 20, 21, 22} \<and> week_str_of (Some ''POST'') 23 = ''23''
   \<and> Some ''REG'' \<noteq> Some ''POST'' \<and> week_str_of (Some ''REG'') 5 = ''5''"
  using week_key [of 23 "Some ''REG''" 2024 "''Buffalo Bills''"]
        week_key [of 5 "Some ''REG''" 2024 "''Buffalo Bills''"]
  by (simp add: str_int_samples)

section \<open>The Spreadspoke line\<close>

lemma home_spread_of_pick:
  "fav_id = ''PICK'' \<or> fav_id = [] \<Longrightarrow> home_spread_of fav_id m hn an hc = Some 0"
  by (auto simp: home_spread_of_def)

text \<open>
  C10. For a row whose favourite is PICK or empty the spread from the home team's
  perspective is 0, whatever magnitude the row carries. Such a row, when its season and
  its numbers parse, its home team is in the name table and its date parses, stores the
  spread 0 under its date and home team.
\<close>

theorem pick_spread_zero:
  assumes fav: "team_favorite_id row = ''PICK'' \<or> team_favorite_id row = []"
    and season: "py_int lib (schedule_season row) = Some y"
    and home: "SPREADSPOKE_NAME_TO_CANONICAL (team_home row) = Some hc" "hc \<noteq> []"
    and date: "strptime_mdY lib (schedule_date row) = Some d"
    and magnitude: "py_float lib (spread_favorite row) = Some m"
    and total: "strip (over_under_line row) = [] \<or> py_float lib (over_under_line row) \<noteq> None"
  shows "home_spread_of (strip (team_favorite_id row)) m (team_home row) (team_away row) (Some hc)
           = Some 0
    \<and> ss_index_row lib row idx
        = Inr (idx((d, hc) \<mapsto>
            \<lparr>e_spread = 0,
             e_over_under = (if strip (over_under_line row) = [] then None
                             else py_float lib (over_under_line row))\<rparr>))"
proof -
  from fav have "strip (team_favorite_id row) = ''PICK'' \<or> strip (team_favorite_id row) = []"
    using strip_samples(1,2) by auto
  then have hs: "home_spread_of (strip (team_favorite_id row)) m (team_home row) (team_away row)
                   (Some hc) = Some 0"
    by (rule home_spread_of_pick)
  from total season home date magnitude hs
  have "ss_index_row lib row idx
        = Inr (idx((d, hc) \<mapsto>
            \<lparr>e_spread = 0,
             e_over_under = (if strip (over_under_line row) = [] then None
                             else py_float lib (over_under_line row))\<rparr>))"
    by (auto simp: ss_index_row_def Let_def falsy_str_def)
  with hs show ?thesis by simp
qed

theorem pick_spread_zero_witness:
  "home_spread_of (strip ''PICK'') (- 3) ''Buffalo Bills'' ''Miami Dolphins'' (Some ''Buffalo Bills'')
     = Some 0
   \<and> ss_index_row sample_lib (row_1980 ''PICK'' ''-3'') Map.empty
     = Inr (Map.empty((''1980-09-07'', ''Buffalo Bills'') \<mapsto>
              \<lparr>e_spread = 0, e_over_under = Some 41\<rparr>))"
  using pick_spread_zero [of "row_1980 ''PICK'' ''-3''" sample_lib 1980 "''Buffalo Bills''"
      "''1980-09-07''" "- 3" Map.empty]
  by (simp add: row_1980_def sample_lib_simps name_samples strip_samples)

lemma home_spread_of_named:
  assumes "fav_id \<noteq> ''PICK''" "fav_id \<noteq> []"
    and "SPREADSPOKE_ABBREV_MAP fav_id = Some fc"
    and "SPREADSPOKE_NAME_TO_CANONICAL home_name = Some home"
  shows "home_spread_of fav_id m home_name away_name (Some home) =
     (if fc = [] then None
      else if fc = home then Some (- m)
      else if fc = away_franchise away_name then Some m
      else None)"
  using assms
  by (cases "SPREADSPOKE_NAME_TO_CANONICAL away_name")
     (auto simp: home_spread_of_def falsy_str_def Let_def away_franchise_def)

lemma home_spread_of_unknown:
  assumes "fav_id \<noteq> ''PICK''" "fav_id \<noteq> []"
    and "SPREADSPOKE_ABBREV_MAP fav_id = None"
  shows "home_spread_of fav_id m home_name away_name hc = None"
  using assms by (simp add: home_spread_of_def falsy_str_def)

text \<open>
  C6, as stated, fails: a row that names Buffalo, the home team, as favourite with
  magnitude 0 is converted to the spread 0, and the sign of 0 names no favourite.
\<close>

theorem favorite_round_trip_counterexample:
  "home_spread_of ''BUF'' 0 ''Buffalo Bills'' ''Miami Dolphins'' (Some ''Buffalo Bills'') = Some 0
   \<and> favorite_identity ''BUF'' = Some ''Buffalo Bills''
   \<and> spec_favored_franchise ''Buffalo Bills'' (away_franchise ''Miami Dolphins'') 0 = None"
  by (simp add: home_spread_of_def favorite_identity_def spec_favored_franchise_def abbrev_samples
      name_samples falsy_str_def)

text \<open>
  C6, amended. For a line that is converted, with a pick or empty favourite or with a
  strictly negative magnitude, the favourite read back from the sign of the converted
  spread (positive the home franchise, negative the away franchise, zero none) is the
  favourite the row names.
\<close>

theorem favorite_round_trip:
  assumes conv: "home_spread_of fav_id m home_name away_name (Some home) = Some sp"
    and home: "SPREADSPOKE_NAME_TO_CANONICAL home_name = Some home"
    and neg: "fav_id = ''PICK'' \<or> fav_id = [] \<or> m < 0"
  shows "spec_favored_franchise home (away_franchise away_name) sp = favorite_identity fav_id"
proof (cases "fav_id = ''PICK'' \<or> fav_id = []")
  case True
  with conv have "sp = 0" by (auto simp: home_spread_of_def)
  with True show ?thesis by (auto simp: spec_favored_franchise_def favorite_identity_def)
next
  case False
  then have named: "fav_id \<noteq> ''PICK''" "fav_id \<noteq> []" by simp_all
  with neg have m: "m < 0" by simp
  show ?thesis
  proof (cases "SPREADSPOKE_ABBREV_MAP fav_id")
    case None
    with named conv show ?thesis by (simp add: home_spread_of_unknown)
  next
    case (Some fc)
    from named have fi: "favorite_identity fav_id = Some fc"
      by (simp add: favorite_identity_def Some)
    from conv have "(if fc = [] then None
      else if fc = home then Some (- m)
      else if fc = away_franchise away_name then Some m
      else None) = Some sp"
      by (simp add: home_spread_of_named [OF named Some home])
    with m fi show ?thesis
      by (auto simp: spec_favored_franchise_def split: if_splits)
  qed
qed

theorem favorite_round_trip_witness:
  "home_spread_of ''MIA'' (- 3) ''Buffalo Bills'' ''Miami Dolphins'' (Some ''Buffalo Bills'')
     = Some (- 3)
   \<and> spec_favored_franchise ''Buffalo Bills'' (away_franchise ''Miami Dolphins'') (- 3)
       = favorite_identity ''MIA''
   \<and> favorite_identity ''MIA'' = Some ''Miami Dolphins''"
proof -
  have c: "home_spread_of ''MIA'' (- 3) ''Buffalo Bills'' ''Miami Dolphins'' (Some ''Buffalo Bills'')
             = Some (- 3)"
    by (simp add: home_spread_of_def abbrev_samples name_samples falsy_str_def)
  have n: "''MIA'' = ''PICK'' \<or> ''MIA'' = [] \<or> (- 3 :: rat) < 0" by simp
  from favorite_round_trip [OF c name_samples(1) n] c show ?thesis
    by (simp add: favorite_identity_def abbrev_samples)
qed

section \<open>A favourite that is neither team\<close>

lemma ss_fill_game_not_found:
  assumes "jget (g_spread game) = None"
    and "g_homeTeamCanonical game = Val home" "home \<noteq> []"
    and "g_gameDate game = Val d" "d \<noteq> []"
    and "ss_idx (d, home) = None"
  shows "ss_fill_game ss_idx game rep = (game, rep\<lparr>not_found := not_found rep + 1\<rparr>)"
  using assms by (simp add: ss_fill_game_def jget_or_def falsy_str_def)

text \<open>
  C4, as stated, fails: a row of Buffalo against Miami that names Dallas as favourite
  leaves no trace. The index built from it is the index built from no row, and the whole
  run over the game of that day returns the games and the counters it returns without
  the row; no failure is raised, stored or counted.
\<close>

theorem ambiguous_favorite_counterexample:
  "SPREADSPOKE_ABBREV_MAP (strip ''DAL'') = Some ''Dallas Cowboys''
   \<and> SPREADSPOKE_NAME_TO_CANONICAL ''Buffalo Bills'' = Some ''Buffalo Bills''
   \<and> SPREADSPOKE_NAME_TO_CANONICAL ''Miami Dolphins'' = Some ''Miami Dolphins''
   \<and> ss_build_index sample_lib [row_1980 ''DAL'' ''-3''] = ss_build_index sample_lib []
   \<and> ss_main sample_lib [game_1980] [row_1980 ''DAL'' ''-3''] = ss_main sample_lib [game_1980] []"
proof -
  have "ss_index_row sample_lib (row_1980 ''DAL'' ''-3'') Map.empty = Inr Map.empty"
    by (simp add: ss_index_row_def row_1980_def sample_lib_simps name_samples strip_samples
        abbrev_samples home_spread_of_def falsy_str_def)
  then have "ss_build_index sample_lib [row_1980 ''DAL'' ''-3''] = ss_build_index sample_lib []"
    by (simp add: ss_build_index_def row_1980_def strip_samples)
  then show ?thesis
    by (simp add: ss_main_def strip_samples abbrev_samples name_samples)
qed

text \<open>
  C4, amended. When the favourite of a row whose numbers parse is neither a pick nor the
  franchise of the home team nor that of the away team, the row is skipped silently: the
  index is returned as it was and no error is raised. A game without spread whose date and
  home team have no entry in the index keeps every field and is counted as not found.
\<close>

theorem ambiguous_favorite_skipped:
  assumes season: "py_int lib (schedule_season row) \<noteq> None"
    and magnitude: "py_float lib (spread_favorite row) \<noteq> None"
    and total: "strip (over_under_line row) = [] \<or> py_float lib (over_under_line row) \<noteq> None"
    and named: "strip (team_favorite_id row) \<noteq> ''PICK''" "strip (team_favorite_id row) \<noteq> []"
    and not_home: "SPREADSPOKE_ABBREV_MAP (strip (team_favorite_id row))
                     \<noteq> SPREADSPOKE_NAME_TO_CANONICAL (team_home row)"
    and not_away: "SPREADSPOKE_ABBREV_MAP (strip (team_favorite_id row))
                     \<noteq> Some (away_franchise (team_away row))"
    and game: "jget (g_spread game) = None" "g_homeTeamCanonical game = Val home" "home \<noteq> []"
              "g_gameDate game = Val d" "d \<noteq> []" "idx (d, home) = None"
  shows "ss_index_row lib row idx = Inr idx
    \<and> ss_fill_game idx game rep = (game, rep\<lparr>not_found := not_found rep + 1\<rparr>)"
proof -
  have hs: "SPREADSPOKE_NAME_TO_CANONICAL (team_home row) = Some h \<Longrightarrow>
     home_spread_of (strip (team_favorite_id row)) m (team_home row) (team_away row) (Some h) = None"
    for h m
    using named not_home not_away
    by (cases "SPREADSPOKE_NAME_TO_CANONICAL (team_away row)")
       (auto simp: home_spread_of_def Let_def falsy_str_def away_franchise_def)
  from season obtain y where y: "py_int lib (schedule_season row) = Some y" by auto
  from magnitude obtain m where m: "py_float lib (spread_favorite row) = Some m" by auto
  have "ss_index_row lib row idx = Inr idx"
  proof (cases "SPREADSPOKE_NAME_TO_CANONICAL (team_home row)")
    case None
    then show ?thesis by (simp add: ss_index_row_def y falsy_str_def)
  next
    case (Some h)
    show ?thesis
    proof (cases "strptime_mdY lib (schedule_date row)")
      case None
      then show ?thesis by (simp add: ss_index_row_def y Some Let_def)
    next
      case d: (Some d)
      from total show ?thesis
        by (auto simp: ss_index_row_def y Some d m Let_def hs [OF Some])
    qed
  qed
  moreover from game have "ss_fill_game idx game rep = (game, rep\<lparr>not_found := not_found rep + 1\<rparr>)"
    by (rule ss_fill_game_not_found)
  ultimately show ?thesis by simp
qed

theorem ambiguous_favorite_skipped_witness:
  "ss_index_row sample_lib (row_1980 ''DAL'' ''-3'') Map.empty = Inr Map.empty
   \<and> ss_fill_game Map.empty game_1980 fill_report0
       = (game_1980, fill_report0\<lparr>not_found := not_found fill_report0 + 1\<rparr>)"
  using ambiguous_favorite_skipped [of sample_lib "row_1980 ''DAL'' ''-3''" game_1980
      "''Buffalo Bills''" "''1980-09-07''" Map.empty fill_report0]
  by (simp add: row_1980_def sample_lib_simps name_samples strip_samples abbrev_samples
      away_franchise_def game_1980_def blank_game_def jget_def)

section \<open>The fill of a game that already has values\<close>

lemma nv_fill_game_keeps:
  "jget (g_spread game) \<noteq> None \<Longrightarrow> fst (nv_fill_game idx game rep) = game"
  by (simp add: nv_fill_game_def)

lemma ss_fill_game_keeps:
  "jget (g_spread game) \<noteq> None \<Longrightarrow> fst (ss_fill_game idx game rep) = game"
  by (simp add: ss_fill_game_def)

lemma ss_index_row_1980:
  "ss_index_row sample_lib (row_1980 ''MIA'' ''-3'') Map.empty
     = Inr (Map.empty((''1980-09-07'', ''Buffalo Bills'') \<mapsto>
              \<lparr>e_spread = - 3, e_over_under = Some 41\<rparr>))"
  by (simp add: ss_index_row_def row_1980_def sample_lib_simps name_samples strip_samples
      abbrev_samples home_spread_of_def falsy_str_def)

lemma ss_build_index_1980:
  "ss_build_index sample_lib [row_1980 ''MIA'' ''-3'']
     = Inr (Map.empty((''1980-09-07'', ''Buffalo Bills'') \<mapsto>
              \<lparr>e_spread = - 3, e_over_under = Some 41\<rparr>))"
proof -
  have "strip (spread_favorite (row_1980 ''MIA'' ''-3'')) \<noteq> []"
    by (simp add: row_1980_def strip_samples)
  then show ?thesis
    by (simp add: ss_build_index_def ss_index_row_1980)
qed

lemma nv_build_index_2024:
  "nv_build_index [sched_2024]
     = Map.empty((2024, ''5'', ''Houston Texans'') \<mapsto>
         \<lparr>spread_line = Some (- 3), total_line = Some 41\<rparr>)"
  by (simp add: nv_build_index_def nv_index_row_def sched_2024_def TEAM_ABBREV_MAP_def
      falsy_str_def str_int_samples)

text \<open>
  C2. The code breaks the claim. Both importers test only the spread before they write:
  a game whose spread is null and whose total line is 44 has the total line replaced by
  the 41 of the feed, in the Spreadspoke importer and in the nflverse importer alike.
\<close>

theorem only_fill_overwrites_total:
  "g_overUnder game_1980 = Val 44
   \<and> map_sum id (\<lambda>(games, rep). (map g_overUnder games, filled rep))
        (ss_main sample_lib [game_1980] [row_1980 ''MIA'' ''-3'']) = Inr ([Val 41], 1)
   \<and> g_overUnder game_2024 = Val 44
   \<and> (\<lambda>(games, rep). (map g_overUnder games, filled rep)) (nv_main [game_2024] [sched_2024])
        = ([Val 41], 1)"
proof -
  have a: "g_overUnder game_1980 = Val 44" "g_overUnder game_2024 = Val 44"
    by (simp_all add: game_1980_def game_2024_def blank_game_def)
  have b: "ss_fill_game (Map.empty((''1980-09-07'', ''Buffalo Bills'') \<mapsto>
              \<lparr>e_spread = - 3, e_over_under = Some 41\<rparr>)) game_1980 fill_report0
      = (game_1980\<lparr>g_spread := Val (- 3), g_overUnder := Val 41,
                    g_spreadResult := Val ''COVERED'', g_ouResult := Val ''UNDER''\<rparr>,
         fill_report0\<lparr>filled := 1, by_season := (\<lambda>_. 0)(Val 1980 := 1)\<rparr>)"
    by (simp add: ss_fill_game_def game_1980_def blank_game_def jget_def jget_or_def jset_def
        falsy_str_def ss_calculate_spread_result_def ss_calculate_ou_result_def fill_report0_def)
  have c: "nv_fill_game (Map.empty((2024, ''5'', ''Houston Texans'') \<mapsto>
         \<lparr>spread_line = Some (- 3), total_line = Some 41\<rparr>)) game_2024 fill_report0
      = (game_2024\<lparr>g_spread := Val (- 3), g_overUnder := Val 41,
                    g_spreadResult := Val ''PUSH'', g_ouResult := Val ''OVER''\<rparr>,
         fill_report0\<lparr>filled := 1, by_season := (\<lambda>_. 0)(Val 2024 := 1)\<rparr>)"
    by (simp add: nv_fill_game_def game_2024_def blank_game_def jget_def jget_or_def jset_def
        falsy_str_def falsy_int_def fmt_str_def calculate_spread_result_def
        calculate_ou_result_def fill_report0_def)
  show ?thesis
    by (simp add: a ss_main_def ss_build_index_1980 b nv_main_def nv_build_index_2024 c)
qed

section \<open>The rows of the join\<close>

lemma normalize_row_dropped:
  "\<not> passes_guards stat \<Longrightarrow>
     normalize_row mi si gi stat st = st\<lparr>unmatched := unmatched st + 1\<rparr>"
  by (auto simp: normalize_row_def passes_guards_def Let_def)

lemma normalize_row_matched:
  assumes "passes_guards stat"
    and "lookup_game gi (the (s_season stat)) (week_str_of (s_season_type stat) (the (s_week stat)))
           (the (TEAM_ABBREV_MAP (the (s_team stat)))) (opp_canonical_of (s_opponent_team stat)) = Some g"
    and "determine_is_home (the (TEAM_ABBREV_MAP (the (s_team stat)))) g = Some h"
  shows "normalize_row mi si gi stat st =
     st\<lparr>matched := matched st + 1,
        results := results st @ [join_row mi si gi stat]\<rparr>"
  using assms by (simp add: normalize_row_def passes_guards_def join_row_def Let_def)

lemma normalize_row_unmatched:
  assumes "passes_guards stat"
    and "lookup_game gi (the (s_season stat)) (week_str_of (s_season_type stat) (the (s_week stat)))
           (the (TEAM_ABBREV_MAP (the (s_team stat)))) (opp_canonical_of (s_opponent_team stat)) = None
         \<or> (\<exists>g. lookup_game gi (the (s_season stat)) (week_str_of (s_season_type stat) (the (s_week stat)))
           (the (TEAM_ABBREV_MAP (the (s_team stat)))) (opp_canonical_of (s_opponent_team stat)) = Some g
            \<and> determine_is_home (the (TEAM_ABBREV_MAP (the (s_team stat)))) g = None)"
  shows "normalize_row mi si gi stat st =
     st\<lparr>unmatched := unmatched st + 1,
        unmatched_examples :=
          (if length (unmatched_examples st) < 10
           then unmatched_examples st @ [unmatched_example stat]
           else unmatched_examples st),
        results := results st @ [join_row mi si gi stat]\<rparr>"
  using assms by (auto simp: normalize_row_def passes_guards_def join_row_def Let_def)

lemma normalize_row_cases:
  assumes "passes_guards stat"
  shows "normalize_row mi si gi stat st =
     st\<lparr>matched := matched st + 1,
        results := results st @ [join_row mi si gi stat]\<rparr>
   \<or> normalize_row mi si gi stat st =
     st\<lparr>unmatched := unmatched st + 1,
        unmatched_examples :=
          (if length (unmatched_examples st) < 10
           then unmatched_examples st @ [unmatched_example stat]
           else unmatched_examples st),
        results := results st @ [join_row mi si gi stat]\<rparr>"
proof (cases "lookup_game gi (the (s_season stat)) (week_str_of (s_season_type stat) (the (s_week stat)))
           (the (TEAM_ABBREV_MAP (the (s_team stat)))) (opp_canonical_of (s_opponent_team stat))")
  case None
  with assms show ?thesis by (simp add: normalize_row_unmatched)
next
  case (Some g)
  show ?thesis
  proof (cases "determine_is_home (the (TEAM_ABBREV_MAP (the (s_team stat)))) g")
    case None
    with Some assms show ?thesis by (simp add: normalize_row_unmatched)
  next
    case h: (Some h)
    with Some assms show ?thesis by (simp add: normalize_row_matched)
  qed
qed

lemma results_normalize_row:
  "results (normalize_row mi si gi stat st)
     = results st @ (if passes_guards stat then [join_row mi si gi stat] else [])"
proof (cases "passes_guards stat")
  case True
  from normalize_row_cases [OF True, of mi si gi st] True show ?thesis by auto
next
  case False
  then show ?thesis by (simp add: normalize_row_dropped)
qed

lemma counters_normalize_row:
  "matched (normalize_row mi si gi stat st) + unmatched (normalize_row mi si gi stat st)
     = matched st + unmatched st + 1"
proof (cases "passes_guards stat")
  case True
  from normalize_row_cases [OF True, of mi si gi st] show ?thesis by auto
next
  case False
  then show ?thesis by (simp add: normalize_row_dropped)
qed

lemma results_normalize_rows:
  "results (normalize_rows mi si gi stats st)
     = results st @ map (join_row mi si gi) (filter passes_guards stats)"
proof (induction stats arbitrary: st)
  case Nil
  then show ?case by (simp add: normalize_rows_def)
next
  case (Cons stat stats)
  have "normalize_rows mi si gi (stat # stats) st
          = normalize_rows mi si gi stats (normalize_row mi si gi stat st)"
    by (simp add: normalize_rows_def)
  then show ?case by (simp add: Cons.IH results_normalize_row)
qed

lemma counters_normalize_rows:
  "matched (normalize_rows mi si gi stats st) + unmatched (normalize_rows mi si gi stats st)
     = matched st + unmatched st + length stats"
proof (induction stats arbitrary: st)
  case Nil
  then show ?case by (simp add: normalize_rows_def)
next
  case (Cons stat stats)
  have "normalize_rows mi si gi (stat # stats) st
          = normalize_rows mi si gi stats (normalize_row mi si gi stat st)"
    by (simp add: normalize_rows_def)
  then show ?case by (simp add: Cons.IH counters_normalize_row)
qed

lemma finds_game_cases:
  "finds_game gi stat =
     (\<exists>g h. lookup_game gi (the (s_season stat)) (week_str_of (s_season_type stat) (the (s_week stat)))
           (the (TEAM_ABBREV_MAP (the (s_team stat)))) (opp_canonical_of (s_opponent_team stat)) = Some g
        \<and> determine_is_home (the (TEAM_ABBREV_MAP (the (s_team stat)))) g = Some h)"
  by (auto simp: finds_game_def Let_def split: option.splits)

lemma normalize_row_found:
  assumes "passes_guards stat" and "finds_game gi stat"
  shows "normalize_row mi si gi stat st =
     st\<lparr>matched := matched st + 1,
        results := results st @ [join_row mi si gi stat]\<rparr>"
proof -
  from assms(2) obtain g h where
    "lookup_game gi (the (s_season stat)) (week_str_of (s_season_type stat) (the (s_week stat)))
           (the (TEAM_ABBREV_MAP (the (s_team stat)))) (opp_canonical_of (s_opponent_team stat)) = Some g"
    "determine_is_home (the (TEAM_ABBREV_MAP (the (s_team stat)))) g = Some h"
    unfolding finds_game_cases by blast
  with assms(1) show ?thesis by (rule normalize_row_matched)
qed

lemma normalize_row_not_found:
  assumes "passes_guards stat" and "\<not> finds_game gi stat"
  shows "normalize_row mi si gi stat st =
     st\<lparr>unmatched := unmatched st + 1,
        unmatched_examples :=
          (if length (unmatched_examples st) < 10
           then unmatched_examples st @ [unmatched_example stat]
           else unmatched_examples st),
        results := results st @ [join_row mi si gi stat]\<rparr>"
proof -
  from assms(2) have
    "lookup_game gi (the (s_season stat)) (week_str_of (s_season_type stat) (the (s_week stat)))
           (the (TEAM_ABBREV_MAP (the (s_team stat)))) (opp_canonical_of (s_opponent_team stat)) = None
     \<or> (\<exists>g. lookup_game gi (the (s_season stat)) (week_str_of (s_season_type stat) (the (s_week stat)))
           (the (TEAM_ABBREV_MAP (the (s_team stat)))) (opp_canonical_of (s_opponent_team stat)) = Some g
            \<and> determine_is_home (the (TEAM_ABBREV_MAP (the (s_team stat)))) g = None)"
    by (auto simp: finds_game_def Let_def split: option.splits)
  with assms(1) show ?thesis by (rule normalize_row_unmatched)
qed

lemma matched_normalize_row:
  "matched (normalize_row mi si gi stat st)
     = matched st + (if passes_guards stat \<and> finds_game gi stat then 1 else 0)"
proof (cases "passes_guards stat")
  case True
  then show ?thesis
    by (cases "finds_game gi stat") (simp_all add: normalize_row_found normalize_row_not_found)
next
  case False
  then show ?thesis by (simp add: normalize_row_dropped)
qed

lemma unmatched_normalize_row:
  "unmatched (normalize_row mi si gi stat st)
     = unmatched st + (if passes_guards stat \<and> finds_game gi stat then 0 else 1)"
proof (cases "passes_guards stat")
  case True
  then show ?thesis
    by (cases "finds_game gi stat") (simp_all add: normalize_row_found normalize_row_not_found)
next
  case False
  then show ?thesis by (simp add: normalize_row_dropped)
qed

lemma matched_normalize_rows:
  "matched (normalize_rows mi si gi stats st)
     = matched st + length (filter (\<lambda>s. passes_guards s \<and> finds_game gi s) stats)"
proof (induction stats arbitrary: st)
  case Nil
  then show ?case by (simp add: normalize_rows_def)
next
  case (Cons stat stats)
  have "normalize_rows mi si gi (stat # stats) st
          = normalize_rows mi si gi stats (normalize_row mi si gi stat st)"
    by (simp add: normalize_rows_def)
  then show ?case by (simp add: Cons.IH matched_normalize_row)
qed

lemma unmatched_normalize_rows:
  "unmatched (normalize_rows mi si gi stats st)
     = unmatched st + length (filter (\<lambda>s. \<not> (passes_guards s \<and> finds_game gi s)) stats)"
proof (induction stats arbitrary: st)
  case Nil
  then show ?case by (simp add: normalize_rows_def)
next
  case (Cons stat stats)
  have "normalize_rows mi si gi (stat # stats) st
          = normalize_rows mi si gi stats (normalize_row mi si gi stat st)"
    by (simp add: normalize_rows_def)
  then show ?case by (simp add: Cons.IH unmatched_normalize_row)
qed

section \<open>The fields of a joined row\<close>

lemma j_opponentCanonical_join_row:
  "j_opponentCanonical (join_row mi si gi stat) = opp_canonical_of (s_opponent_team stat)"
  by (simp add: join_row_def trimmed_row_def Let_def)

lemma j_season_type_join_row:
  "j_season_type (join_row mi si gi stat) = s_season_type stat"
  by (simp add: join_row_def trimmed_row_def Let_def)

lemma j_context_join_row:
  "j_context (join_row mi si gi stat) =
     (case lookup_game gi (the (s_season stat))
             (week_str_of (s_season_type stat) (the (s_week stat)))
             (the (TEAM_ABBREV_MAP (the (s_team stat)))) (opp_canonical_of (s_opponent_team stat)) of
        None \<Rightarrow> unmatched_context (s_season_type stat)
      | Some g \<Rightarrow>
          (case determine_is_home (the (TEAM_ABBREV_MAP (the (s_team stat)))) g of
             None \<Rightarrow> unmatched_context (s_season_type stat)
           | Some h \<Rightarrow> matched_context g h))"
  by (simp add: join_row_def trimmed_row_def Let_def)

lemma j_teamCanonical_join_row:
  "j_teamCanonical (join_row mi si gi stat) = the (TEAM_ABBREV_MAP (the (s_team stat)))"
  by (simp add: join_row_def trimmed_row_def Let_def)

lemma j_key_join_row:
  "j_season (join_row mi si gi stat) = s_season stat"
  "j_week (join_row mi si gi stat) = s_week stat"
  by (simp_all add: join_row_def trimmed_row_def Let_def)

lemma j_context_found:
  assumes "lookup_game gi (the (s_season stat)) (week_str_of (s_season_type stat) (the (s_week stat)))
           (the (TEAM_ABBREV_MAP (the (s_team stat)))) (opp_canonical_of (s_opponent_team stat)) = Some g"
    and "determine_is_home (the (TEAM_ABBREV_MAP (the (s_team stat)))) g = Some h"
  shows "j_context (join_row mi si gi stat) = matched_context g h"
  using assms by (simp only: j_context_join_row option.case)

lemma j_context_not_found:
  assumes "\<not> finds_game gi stat"
  shows "j_context (join_row mi si gi stat) = unmatched_context (s_season_type stat)"
  using assms by (auto simp: j_context_join_row finds_game_def Let_def split: option.splits)

text \<open>The context of a row with a game, field by field (lines 304 to 361).\<close>

lemma matched_context_fields:
  "matched_context g h =
     (let ts = (if h then jget (g_homeScore g) else jget (g_awayScore g));
           os = (if h then jget (g_awayScore g) else jget (g_homeScore g))
      in
        \<lparr>c_gameDate = jget (g_gameDate g),
         c_dayOfWeek = jget (g_dayOfWeek g),
         c_isHome = Some h,
         c_teamScore = ts,
         c_opponentScore = os,
         c_gameResult =
           (case ts of
              None \<Rightarrow> None
            | Some t \<Rightarrow>
                (case os of
                   None \<Rightarrow> None
                 | Some s \<Rightarrow> Some (if s < t then ''W'' else if t < s then ''L'' else ''T''))),
         c_spread = (case jget (g_spread g) of
                       None \<Rightarrow> None
                     | Some x \<Rightarrow> Some (if h then x else - x)),
         c_overUnder = jget (g_overUnder g),
         c_spreadResult = jget (g_spreadResult g),
         c_ouResult = jget (g_ouResult g),
         c_isPlayoff = jget_or False (g_isPlayoff g),
         c_isPrimetime = jget_or False (g_isPrimetime g),
         c_primetimeSlot = jget (g_primetimeSlot g),
         c_isNeutralSite = jget_or False (g_isNeutralSite g),
         c_temperature = jget (g_temperature g),
         c_windMph = jget (g_windMph g),
         c_weatherCategory = jget (g_weatherCategory g),
         c_restDays = (if h then jget (g_homeRestDays g) else jget (g_awayRestDays g)),
         c_isByeWeek = (if h then jget (g_homeIsByeWeek g) else jget (g_awayIsByeWeek g))\<rparr>)"
  by (simp add: matched_context_def game_result_of_def Let_def split: option.splits)

text \<open>Every game of the table is a game of the input that passed the guard of line 196.\<close>

lemma fold_index_game:
  "fold index_game gs m k = Some g \<Longrightarrow>
     m k = Some g
     \<or> (g \<in> set gs
        \<and> \<not> (falsy_int (jget (g_season g)) \<or> falsy_str (jget (g_homeTeamCanonical g))
               \<or> falsy_str (jget (g_awayTeamCanonical g))))"
proof (induction gs arbitrary: m)
  case Nil
  then show ?case by simp
next
  case (Cons x gs)
  from Cons.prems have "fold index_game gs (index_game x m) k = Some g" by simp
  from Cons.IH [OF this] show ?case
  proof
    assume "index_game x m k = Some g"
    then show ?thesis
      by (auto simp: index_game_def Let_def split: if_splits)
  next
    assume "g \<in> set gs
        \<and> \<not> (falsy_int (jget (g_season g)) \<or> falsy_str (jget (g_homeTeamCanonical g))
               \<or> falsy_str (jget (g_awayTeamCanonical g)))"
    then show ?thesis by simp
  qed
qed

lemma build_game_index_member:
  "build_game_index games k = Some g \<Longrightarrow> g \<in> set games"
  using fold_index_game [of games Map.empty k g] by (simp add: build_game_index_def)

lemma build_game_index_names:
  assumes "build_game_index games k = Some g"
  shows "\<exists>h a. g_homeTeamCanonical g = Val h \<and> h \<noteq> [] \<and> g_awayTeamCanonical g = Val a \<and> a \<noteq> []"
proof -
  from fold_index_game [of games Map.empty k g] assms
  have "\<not> falsy_str (jget (g_homeTeamCanonical g))" "\<not> falsy_str (jget (g_awayTeamCanonical g))"
    by (simp_all add: build_game_index_def)
  then show ?thesis
    by (cases "g_homeTeamCanonical g"; cases "g_awayTeamCanonical g")
       (simp_all add: falsy_str_def jget_def)
qed

lemma lookup_game_indexed:
  "lookup_game gi season week_str team opp = Some g \<Longrightarrow> \<exists>k. gi k = Some g"
  by (auto simp: lookup_game_def split: option.splits)

section \<open>More facts about the sample inputs\<close>

lemma team_samples:
  "TEAM_ABBREV_MAP ''BUF'' = Some ''Buffalo Bills''"
  "TEAM_ABBREV_MAP ''HOU'' = Some ''Houston Texans''"
  "TEAM_ABBREV_MAP ''BAL'' = Some ''Baltimore Ravens''"
  "TEAM_ABBREV_MAP ''XXX'' = None"
  by (simp_all add: TEAM_ABBREV_MAP_def)

lemma passes_samples:
  "passes_guards (stat_2024 ''BUF'' ''HOU'')"
  "passes_guards (stat_2024 ''BUF'' ''XXX'')"
  "\<not> passes_guards (stat_2024 ''XXX'' ''HOU'')"
  "passes_guards stat_post"
  by (simp_all add: passes_guards_def stat_2024_def stat_post_def falsy_str_def falsy_int_def
      team_samples)

lemma stat_2024_fields:
  "the (s_season (stat_2024 t a)) = 2024"
  "week_str_of (s_season_type (stat_2024 t a)) (the (s_week (stat_2024 t a))) = ''5''"
  "s_team (stat_2024 t a) = Some t"
  "s_opponent_team (stat_2024 t a) = Some a"
  by (simp_all add: stat_2024_def week_str_of_def str_int_samples)

lemma opp_samples:
  "opp_canonical_of (Some ''HOU'') = Some ''Houston Texans''"
  by (simp add: opp_canonical_of_def team_samples)

lemma norm_state0_simps:
  "results norm_state0 = []"
  "matched norm_state0 = 0"
  "unmatched norm_state0 = 0"
  "unmatched_examples norm_state0 = []"
  by (simp_all add: norm_state0_def)

lemma game_index_2024:
  "build_game_index [game_2024]
     = (Map.empty(''2024-5-Houston Texans'' \<mapsto> game_2024))(''2024-5-Buffalo Bills'' \<mapsto> game_2024)"
  by (simp add: build_game_index_def index_game_def game_2024_def blank_game_def jget_def
      falsy_int_def falsy_str_def game_key_of_def fmt_str_def str_int_samples)

lemma game_index_2024_spelled:
  "build_game_index [game_2024_spelled]
     = (Map.empty(''2024-5-Houston Texans'' \<mapsto> game_2024_spelled))
         (''2024-5-buffalo bills'' \<mapsto> game_2024_spelled)"
  by (simp add: build_game_index_def index_game_def game_2024_spelled_def game_2024_def
      blank_game_def jget_def falsy_int_def falsy_str_def game_key_of_def fmt_str_def
      str_int_samples)

lemma game_index_2024_lined:
  "build_game_index [game_2024_lined]
     = (Map.empty(''2024-5-Houston Texans'' \<mapsto> game_2024_lined))
         (''2024-5-Buffalo Bills'' \<mapsto> game_2024_lined)"
  by (simp add: build_game_index_def index_game_def game_2024_lined_def game_2024_def
      blank_game_def jget_def falsy_int_def falsy_str_def game_key_of_def fmt_str_def
      str_int_samples)

lemma lower_samples:
  "lower ''Buffalo Bills'' = ''buffalo bills''"
  "lower ''buffalo bills'' = ''buffalo bills''"
  "lower ''Houston Texans'' = ''houston texans''"
  by (simp_all add: lower_def lower_char_def)

lemma py_in_samples:
  "py_in ''buffalo bills'' ''buffalo bills''"
  "\<not> py_in ''buffalo bills'' ''houston texans''"
  by simp_all

lemma determine_fuzzy_sample:
  "determine_is_home ''Buffalo Bills'' game_2024_spelled = Some False"
  by (simp add: determine_is_home_def game_2024_spelled_def game_2024_def blank_game_def
      name_of_def lower_samples py_in_samples)

lemma determine_exact_sample:
  "determine_is_home ''Buffalo Bills'' game_2024 = Some False"
  by (simp add: determine_is_home_def game_2024_def blank_game_def name_of_def)

lemma lookup_fuzzy_sample:
  "lookup_game (build_game_index [game_2024_spelled]) 2024 ''5'' ''Buffalo Bills''
     (Some ''Houston Texans'') = Some game_2024_spelled"
  by (simp add: game_index_2024_spelled lookup_game_def game_key_of_def game_key_opp_of_def
      fmt_str_def str_int_samples)

lemma lookup_exact_sample:
  "lookup_game (build_game_index [game_2024]) 2024 ''5'' ''Buffalo Bills''
     (Some ''Houston Texans'') = Some game_2024"
  by (simp add: game_index_2024 lookup_game_def game_key_of_def game_key_opp_of_def
      fmt_str_def str_int_samples)

lemma name_of_samples:
  "name_of (g_homeTeamCanonical game_2024) = ''Houston Texans''"
  "name_of (g_awayTeamCanonical game_2024) = ''Buffalo Bills''"
  "name_of (g_homeTeamCanonical game_2024_spelled) = ''Houston Texans''"
  "name_of (g_awayTeamCanonical game_2024_spelled) = ''buffalo bills''"
  by (simp_all add: game_2024_spelled_def game_2024_def blank_game_def name_of_def)

lemma row_lookup_fuzzy:
  "lookup_game (build_game_index [game_2024_spelled]) (the (s_season (stat_2024 ''BUF'' ''HOU'')))
     (week_str_of (s_season_type (stat_2024 ''BUF'' ''HOU'')) (the (s_week (stat_2024 ''BUF'' ''HOU''))))
     (the (TEAM_ABBREV_MAP (the (s_team (stat_2024 ''BUF'' ''HOU'')))))
     (opp_canonical_of (s_opponent_team (stat_2024 ''BUF'' ''HOU''))) = Some game_2024_spelled"
  by (simp add: stat_2024_fields team_samples opp_samples lookup_fuzzy_sample)

lemma row_lookup_exact:
  "lookup_game (build_game_index [game_2024]) (the (s_season (stat_2024 ''BUF'' ''HOU'')))
     (week_str_of (s_season_type (stat_2024 ''BUF'' ''HOU'')) (the (s_week (stat_2024 ''BUF'' ''HOU''))))
     (the (TEAM_ABBREV_MAP (the (s_team (stat_2024 ''BUF'' ''HOU'')))))
     (opp_canonical_of (s_opponent_team (stat_2024 ''BUF'' ''HOU''))) = Some game_2024"
  by (simp add: stat_2024_fields team_samples opp_samples lookup_exact_sample)

lemma row_team_sample:
  "the (TEAM_ABBREV_MAP (the (s_team (stat_2024 ''BUF'' ''HOU'')))) = ''Buffalo Bills''"
  by (simp add: stat_2024_fields team_samples)

lemma determine_lined_sample:
  "determine_is_home ''Buffalo Bills'' game_2024_lined = Some False"
  by (simp add: determine_is_home_def game_2024_lined_def game_2024_def blank_game_def
      name_of_def)

lemma row_lookup_lined:
  "lookup_game (build_game_index [game_2024_lined]) (the (s_season (stat_2024 ''BUF'' ''HOU'')))
     (week_str_of (s_season_type (stat_2024 ''BUF'' ''HOU'')) (the (s_week (stat_2024 ''BUF'' ''HOU''))))
     (the (TEAM_ABBREV_MAP (the (s_team (stat_2024 ''BUF'' ''HOU'')))))
     (opp_canonical_of (s_opponent_team (stat_2024 ''BUF'' ''HOU''))) = Some game_2024_lined"
  by (simp add: stat_2024_fields team_samples opp_samples game_index_2024_lined lookup_game_def
      game_key_of_def game_key_opp_of_def fmt_str_def str_int_samples)

lemma row_lookup_post:
  "lookup_game (build_game_index [game_2024]) (the (s_season stat_post))
     (week_str_of (s_season_type stat_post) (the (s_week stat_post)))
     (the (TEAM_ABBREV_MAP (the (s_team stat_post))))
     (opp_canonical_of (s_opponent_team stat_post)) = None"
  by (simp add: stat_post_def week_str_of_def PLAYOFF_WEEK_MAP_def team_samples
      opp_canonical_of_def game_index_2024 lookup_game_def game_key_of_def game_key_opp_of_def
      fmt_str_def str_int_samples)

lemma j_context_post:
  "j_context (join_row Map.empty Map.empty (build_game_index [game_2024]) stat_post)
     = unmatched_context (Some ''POST'')"
proof -
  have "s_season_type stat_post = Some ''POST''"
    by (simp add: stat_post_def)
  with row_lookup_post show ?thesis
    by (simp only: j_context_join_row option.case)
qed

lemma j_context_exact:
  "j_context (join_row Map.empty Map.empty (build_game_index [game_2024])
     (stat_2024 ''BUF'' ''HOU'')) = matched_context game_2024 False"
proof -
  have "determine_is_home (the (TEAM_ABBREV_MAP (the (s_team (stat_2024 ''BUF'' ''HOU'')))))
          game_2024 = Some False"
    by (simp add: row_team_sample determine_exact_sample)
  with row_lookup_exact show ?thesis
    by (simp only: j_context_join_row option.case)
qed

lemma finds_game_samples:
  "finds_game (build_game_index [game_2024]) (stat_2024 ''BUF'' ''HOU'')"
  "\<not> finds_game (build_game_index [game_2024]) stat_post"
proof -
  have "determine_is_home (the (TEAM_ABBREV_MAP (the (s_team (stat_2024 ''BUF'' ''HOU'')))))
          game_2024 = Some False"
    by (simp add: row_team_sample determine_exact_sample)
  with row_lookup_exact show "finds_game (build_game_index [game_2024]) (stat_2024 ''BUF'' ''HOU'')"
    unfolding finds_game_cases by blast
  from row_lookup_post show "\<not> finds_game (build_game_index [game_2024]) stat_post"
    unfolding finds_game_cases by simp
qed

lemma post_season_type:
  "s_season_type stat_post = Some ''POST''"
  by (simp add: stat_post_def)

lemma unmatched_example_post:
  "unmatched_example stat_post = ''  Josh Allen (BUF) season=2024 week=19 type=POST''"
  by (simp add: unmatched_example_def stat_post_def fmt_str_def fmt_int_def str_int_samples)

lemma j_context_fuzzy:
  "j_context (join_row Map.empty Map.empty (build_game_index [game_2024_spelled])
     (stat_2024 ''BUF'' ''HOU''))
   =
     \<lparr>c_gameDate = Some ''2024-10-06'', c_dayOfWeek = None, c_isHome = Some False,
      c_teamScore = Some 20, c_opponentScore = Some 23, c_gameResult = Some ''L'',
      c_spread = None, c_overUnder = Some 44, c_spreadResult = None,
      c_ouResult = None, c_isPlayoff = Some False, c_isPrimetime = Some False,
      c_primetimeSlot = None, c_isNeutralSite = Some False, c_temperature = None,
      c_windMph = None, c_weatherCategory = None, c_restDays = None,
      c_isByeWeek = None\<rparr>"
proof -
  have "determine_is_home (the (TEAM_ABBREV_MAP (the (s_team (stat_2024 ''BUF'' ''HOU'')))))
          game_2024_spelled = Some False"
    by (simp add: row_team_sample determine_fuzzy_sample)
  with row_lookup_fuzzy
  have "j_context (join_row Map.empty Map.empty (build_game_index [game_2024_spelled])
          (stat_2024 ''BUF'' ''HOU'')) = matched_context game_2024_spelled False"
    by (rule j_context_found)
  then show ?thesis
    by (simp add: matched_context_def game_result_of_def Let_def game_2024_spelled_def
        game_2024_def blank_game_def jget_def jget_or_def)
qed

lemma j_context_lined:
  "j_context (join_row Map.empty Map.empty (build_game_index [game_2024_lined])
     (stat_2024 ''BUF'' ''HOU''))
   =
     \<lparr>c_gameDate = Some ''2024-10-06'', c_dayOfWeek = None, c_isHome = Some False,
      c_teamScore = Some 20, c_opponentScore = Some 23, c_gameResult = Some ''L'',
      c_spread = Some 3, c_overUnder = Some 41, c_spreadResult = Some ''PUSH'',
      c_ouResult = Some ''OVER'', c_isPlayoff = Some False,
      c_isPrimetime = Some False, c_primetimeSlot = None,
      c_isNeutralSite = Some False, c_temperature = None, c_windMph = None,
      c_weatherCategory = None, c_restDays = Some 10, c_isByeWeek = None\<rparr>"
proof -
  have "determine_is_home (the (TEAM_ABBREV_MAP (the (s_team (stat_2024 ''BUF'' ''HOU'')))))
          game_2024_lined = Some False"
    by (simp add: row_team_sample determine_lined_sample)
  with row_lookup_lined
  have "j_context (join_row Map.empty Map.empty (build_game_index [game_2024_lined])
          (stat_2024 ''BUF'' ''HOU'')) = matched_context game_2024_lined False"
    by (rule j_context_found)
  then show ?thesis
    by (simp add: matched_context_def game_result_of_def Let_def game_2024_lined_def
        game_2024_def blank_game_def jget_def jget_or_def)
qed

section \<open>One output row for every row that passes the guards\<close>

text \<open>
  C1, as stated, fails: a row whose team code XXX has no entry in the table is counted as
  unmatched and is not written; the output of this one-row input is empty.
\<close>

theorem one_row_per_input_counterexample:
  "results (normalize_main [stat_2024 ''XXX'' ''HOU''] [] [] [game_2024]) = []
   \<and> unmatched (normalize_main [stat_2024 ''XXX'' ''HOU''] [] [] [game_2024]) = 1
   \<and> length (results (normalize_main [stat_2024 ''XXX'' ''HOU''] [] [] [game_2024]))
       \<noteq> length [stat_2024 ''XXX'' ''HOU'']"
  by (simp add: normalize_main_def normalize_rows_def normalize_row_dropped passes_samples
      norm_state0_def)

text \<open>
  C1, amended. The output holds exactly one row for every input row that has its player,
  season, week and team and whose team code is in the table, in the order of the input.
  Such a row is written also when no game is found: it then adds one to the unmatched
  counter, nothing to the matched counter, and every field of its context is null except
  \<^verbatim>\<open>isPlayoff\<close>, which says whether the season type of the row is POST. A row with a game
  adds one to the matched counter and nothing to the unmatched counter. An input row that
  fails one of the two guards adds one to the unmatched counter and nothing to the output.
  So the matched counter is the number of rows that pass the guards and find a game, the
  unmatched counter is the number of all other rows, and their sum is the number of input
  rows.
\<close>

theorem one_row_per_guarded_input:
  "results (normalize_main stats metadata snaps games)
     = map (join_row (fold index_meta metadata Map.empty) (fold index_snap snaps Map.empty)
              (build_game_index games))
         (filter passes_guards stats)
   \<and> length (results (normalize_main stats metadata snaps games))
       = length (filter passes_guards stats)
   \<and> matched (normalize_main stats metadata snaps games)
       + unmatched (normalize_main stats metadata snaps games) = length stats
   \<and> (\<not> passes_guards stat \<longrightarrow>
        normalize_row mi si gi stat st = st\<lparr>unmatched := unmatched st + 1\<rparr>)
   \<and> (passes_guards stat \<longrightarrow>
        results (normalize_row mi si gi stat st) = results st @ [join_row mi si gi stat]
        \<and> matched (normalize_row mi si gi stat st) + unmatched (normalize_row mi si gi stat st)
            = matched st + unmatched st + 1)
   \<and> matched (normalize_main stats metadata snaps games)
       = length (filter (\<lambda>s. passes_guards s \<and> finds_game (build_game_index games) s) stats)
   \<and> unmatched (normalize_main stats metadata snaps games)
       = length (filter (\<lambda>s. \<not> (passes_guards s \<and> finds_game (build_game_index games) s))
                   stats)
   \<and> (passes_guards stat \<and> \<not> finds_game gi stat \<longrightarrow>
        normalize_row mi si gi stat st
          = st\<lparr>unmatched := unmatched st + 1,
                unmatched_examples :=
                  (if length (unmatched_examples st) < 10
                   then unmatched_examples st @ [unmatched_example stat]
                   else unmatched_examples st),
                results := results st @ [join_row mi si gi stat]\<rparr>
        \<and> j_context (join_row mi si gi stat)
            = \<lparr>c_gameDate = None, c_dayOfWeek = None, c_isHome = None, c_teamScore = None,
               c_opponentScore = None, c_gameResult = None, c_spread = None, c_overUnder = None,
               c_spreadResult = None, c_ouResult = None,
               c_isPlayoff = Some (s_season_type stat = Some ''POST''),
               c_isPrimetime = None, c_primetimeSlot = None, c_isNeutralSite = None,
               c_temperature = None, c_windMph = None, c_weatherCategory = None,
               c_restDays = None, c_isByeWeek = None\<rparr>)
   \<and> (passes_guards stat \<and> finds_game gi stat \<longrightarrow>
        normalize_row mi si gi stat st
          = st\<lparr>matched := matched st + 1,
                results := results st @ [join_row mi si gi stat]\<rparr>)"
proof -
  let ?mi = "fold index_meta metadata Map.empty"
  let ?si = "fold index_snap snaps Map.empty"
  let ?gi = "build_game_index games"
  have a: "results (normalize_main stats metadata snaps games)
             = map (join_row ?mi ?si ?gi) (filter passes_guards stats)"
    by (simp add: normalize_main_def results_normalize_rows norm_state0_simps)
  then have b: "length (results (normalize_main stats metadata snaps games))
                  = length (filter passes_guards stats)"
    by simp
  have c: "matched (normalize_main stats metadata snaps games)
             + unmatched (normalize_main stats metadata snaps games) = length stats"
    using counters_normalize_rows [of ?mi ?si ?gi stats norm_state0]
    by (simp add: normalize_main_def norm_state0_simps)
  have d: "\<not> passes_guards stat \<longrightarrow>
        normalize_row mi si gi stat st = st\<lparr>unmatched := unmatched st + 1\<rparr>"
    by (simp add: normalize_row_dropped)
  have e: "passes_guards stat \<longrightarrow>
        results (normalize_row mi si gi stat st) = results st @ [join_row mi si gi stat]
        \<and> matched (normalize_row mi si gi stat st) + unmatched (normalize_row mi si gi stat st)
            = matched st + unmatched st + 1"
    by (simp add: results_normalize_row counters_normalize_row)
  have f: "matched (normalize_main stats metadata snaps games)
       = length (filter (\<lambda>s. passes_guards s \<and> finds_game ?gi s) stats)"
    by (simp add: normalize_main_def matched_normalize_rows norm_state0_simps)
  have g: "unmatched (normalize_main stats metadata snaps games)
       = length (filter (\<lambda>s. \<not> (passes_guards s \<and> finds_game ?gi s)) stats)"
    by (simp add: normalize_main_def unmatched_normalize_rows norm_state0_simps)
  have h: "passes_guards stat \<and> \<not> finds_game gi stat \<longrightarrow>
        normalize_row mi si gi stat st
          = st\<lparr>unmatched := unmatched st + 1,
                unmatched_examples :=
                  (if length (unmatched_examples st) < 10
                   then unmatched_examples st @ [unmatched_example stat]
                   else unmatched_examples st),
                results := results st @ [join_row mi si gi stat]\<rparr>
        \<and> j_context (join_row mi si gi stat)
            = \<lparr>c_gameDate = None, c_dayOfWeek = None, c_isHome = None, c_teamScore = None,
               c_opponentScore = None, c_gameResult = None, c_spread = None, c_overUnder = None,
               c_spreadResult = None, c_ouResult = None,
               c_isPlayoff = Some (s_season_type stat = Some ''POST''),
               c_isPrimetime = None, c_primetimeSlot = None, c_isNeutralSite = None,
               c_temperature = None, c_windMph = None, c_weatherCategory = None,
               c_restDays = None, c_isByeWeek = None\<rparr>"
    by (simp add: normalize_row_not_found j_context_not_found unmatched_context_def)
  have i: "passes_guards stat \<and> finds_game gi stat \<longrightarrow>
        normalize_row mi si gi stat st
          = st\<lparr>matched := matched st + 1,
                results := results st @ [join_row mi si gi stat]\<rparr>"
    by (simp add: normalize_row_found)
  show ?thesis
    by (intro conjI a b c d e f g h i)
qed

theorem one_row_per_guarded_input_witness:
  "\<not> passes_guards (stat_2024 ''XXX'' ''HOU'')
   \<and> passes_guards stat_post \<and> \<not> finds_game (build_game_index [game_2024]) stat_post
   \<and> passes_guards (stat_2024 ''BUF'' ''HOU'')
   \<and> finds_game (build_game_index [game_2024]) (stat_2024 ''BUF'' ''HOU'')
   \<and> length (results (normalize_main
         [stat_post, stat_2024 ''XXX'' ''HOU'', stat_2024 ''BUF'' ''HOU''] [] [] [game_2024])) = 2
   \<and> matched (normalize_main
         [stat_post, stat_2024 ''XXX'' ''HOU'', stat_2024 ''BUF'' ''HOU''] [] [] [game_2024]) = 1
   \<and> unmatched (normalize_main
         [stat_post, stat_2024 ''XXX'' ''HOU'', stat_2024 ''BUF'' ''HOU''] [] [] [game_2024]) = 2
   \<and> normalize_row Map.empty Map.empty (build_game_index [game_2024]) (stat_2024 ''XXX'' ''HOU'')
         norm_state0
       = norm_state0\<lparr>unmatched := 1\<rparr>
   \<and> normalize_row Map.empty Map.empty (build_game_index [game_2024]) stat_post norm_state0
       = norm_state0\<lparr>unmatched := 1,
           unmatched_examples := [''  Josh Allen (BUF) season=2024 week=19 type=POST''],
           results := [join_row Map.empty Map.empty (build_game_index [game_2024]) stat_post]\<rparr>
   \<and> j_context (join_row Map.empty Map.empty (build_game_index [game_2024]) stat_post)
       = \<lparr>c_gameDate = None, c_dayOfWeek = None, c_isHome = None, c_teamScore = None,
          c_opponentScore = None, c_gameResult = None, c_spread = None,
          c_overUnder = None, c_spreadResult = None, c_ouResult = None,
          c_isPlayoff = Some True, c_isPrimetime = None, c_primetimeSlot = None,
          c_isNeutralSite = None, c_temperature = None, c_windMph = None,
          c_weatherCategory = None, c_restDays = None, c_isByeWeek = None\<rparr>
   \<and> normalize_row Map.empty Map.empty (build_game_index [game_2024]) (stat_2024 ''BUF'' ''HOU'')
         norm_state0
       = norm_state0\<lparr>matched := 1,
           results := [join_row Map.empty Map.empty (build_game_index [game_2024])
                         (stat_2024 ''BUF'' ''HOU'')]\<rparr>"
  using one_row_per_guarded_input [of
      "[stat_post, stat_2024 ''XXX'' ''HOU'', stat_2024 ''BUF'' ''HOU'']" "[]" "[]"
      "[game_2024]" "stat_2024 ''XXX'' ''HOU''" Map.empty Map.empty
      "build_game_index [game_2024]" norm_state0]
    one_row_per_guarded_input [of
      "[stat_post, stat_2024 ''XXX'' ''HOU'', stat_2024 ''BUF'' ''HOU'']" "[]" "[]"
      "[game_2024]" stat_post Map.empty Map.empty "build_game_index [game_2024]" norm_state0]
    one_row_per_guarded_input [of
      "[stat_post, stat_2024 ''XXX'' ''HOU'', stat_2024 ''BUF'' ''HOU'']" "[]" "[]"
      "[game_2024]" "stat_2024 ''BUF'' ''HOU''" Map.empty Map.empty
      "build_game_index [game_2024]" norm_state0]
  by (simp add: passes_samples finds_game_samples norm_state0_simps unmatched_example_post
      post_season_type)

section \<open>The opponent of a row\<close>

text \<open>
  C9. When the abbreviation of the opponent of a row has no entry in the team table, the
  opponent of the row is the abbreviation itself, and the key of the second lookup, which
  is tried when the key of the team finds no game, is built from that abbreviation. The row
  is written with the abbreviation as its \<^verbatim>\<open>opponentCanonical\<close>. A row whose own team
  abbreviation has no entry in the table is counted as unmatched and is not written.
\<close>

theorem opponent_abbreviation_passes_through:
  assumes opp: "TEAM_ABBREV_MAP a = None"
    and stat: "s_opponent_team stat = Some a" "passes_guards stat"
    and other: "s_team other = Some u" "TEAM_ABBREV_MAP u = None"
  shows "opp_canonical_of (Some a) = Some a
    \<and> game_key_opp_of season week_str (opp_canonical_of (Some a))
        = str_int season @ ''-'' @ week_str @ ''-'' @ a
    \<and> (game_by_key (game_key_of season week_str team_canonical) = None \<longrightarrow>
         lookup_game game_by_key season week_str team_canonical (opp_canonical_of (Some a))
           = game_by_key (str_int season @ ''-'' @ week_str @ ''-'' @ a))
    \<and> results (normalize_row mi si gi stat st) = results st @ [join_row mi si gi stat]
    \<and> j_opponentCanonical (join_row mi si gi stat) = Some a
    \<and> normalize_row mi si gi other st = st\<lparr>unmatched := unmatched st + 1\<rparr>"
proof -
  have a: "opp_canonical_of (Some a) = Some a"
    by (simp add: opp_canonical_of_def opp)
  have k: "game_key_opp_of season week_str (Some a) = str_int season @ ''-'' @ week_str @ ''-'' @ a"
    by (simp add: game_key_opp_of_def game_key_of_def fmt_str_def)
  have l: "game_by_key (game_key_of season week_str team_canonical) = None \<longrightarrow>
         lookup_game game_by_key season week_str team_canonical (Some a)
           = game_by_key (str_int season @ ''-'' @ week_str @ ''-'' @ a)"
    by (simp add: lookup_game_def k)
  have "\<not> passes_guards other"
    using other by (simp add: passes_guards_def falsy_str_def)
  then have d: "normalize_row mi si gi other st = st\<lparr>unmatched := unmatched st + 1\<rparr>"
    by (rule normalize_row_dropped)
  from stat a k l d show ?thesis
    by (simp add: results_normalize_row j_opponentCanonical_join_row)
qed

theorem opponent_abbreviation_passes_through_witness:
  "opp_canonical_of (Some ''XXX'') = Some ''XXX''
   \<and> game_key_opp_of 2024 ''5'' (opp_canonical_of (Some ''XXX'')) = ''2024-5-XXX''
   \<and> j_opponentCanonical (join_row Map.empty Map.empty Map.empty (stat_2024 ''BUF'' ''XXX''))
       = Some ''XXX''
   \<and> normalize_row Map.empty Map.empty Map.empty (stat_2024 ''XXX'' ''HOU'') norm_state0
       = norm_state0\<lparr>unmatched := unmatched norm_state0 + 1\<rparr>"
  using opponent_abbreviation_passes_through [of "''XXX''" "stat_2024 ''BUF'' ''XXX''"
      "stat_2024 ''XXX'' ''HOU''" "''XXX''" 2024 "''5''" Map.empty "''Buffalo Bills''"
      Map.empty Map.empty Map.empty norm_state0]
  by (simp add: team_samples passes_samples str_int_samples stat_2024_fields
      game_key_opp_of_def game_key_of_def fmt_str_def)

section \<open>The fallback on the spelling of a name\<close>

text \<open>
  C5, as stated, fails: a row whose team is found in a game only by the comparison of the
  lower-case names gives the same counters as a row whose team equals the name of the game.
  The state of the run has a matched and an unmatched counter and no third one, and nothing
  in it tells the two rows apart.
\<close>

theorem fuzzy_match_counterexample:
  "''Buffalo Bills'' \<noteq> name_of (g_homeTeamCanonical game_2024_spelled)
   \<and> ''Buffalo Bills'' \<noteq> name_of (g_awayTeamCanonical game_2024_spelled)
   \<and> determine_is_home ''Buffalo Bills'' game_2024_spelled = Some False
   \<and> matched (normalize_main [stat_2024 ''BUF'' ''HOU''] [] [] [game_2024_spelled]) = 1
   \<and> unmatched (normalize_main [stat_2024 ''BUF'' ''HOU''] [] [] [game_2024_spelled]) = 0
   \<and> unmatched_examples (normalize_main [stat_2024 ''BUF'' ''HOU''] [] [] [game_2024_spelled]) = []
   \<and> matched (normalize_main [stat_2024 ''BUF'' ''HOU''] [] [] [game_2024]) = 1
   \<and> unmatched (normalize_main [stat_2024 ''BUF'' ''HOU''] [] [] [game_2024]) = 0
   \<and> unmatched_examples (normalize_main [stat_2024 ''BUF'' ''HOU''] [] [] [game_2024]) = []"
proof -
  have df: "determine_is_home (the (TEAM_ABBREV_MAP (the (s_team (stat_2024 ''BUF'' ''HOU'')))))
              game_2024_spelled = Some False"
    by (simp add: row_team_sample determine_fuzzy_sample)
  have de: "determine_is_home (the (TEAM_ABBREV_MAP (the (s_team (stat_2024 ''BUF'' ''HOU'')))))
              game_2024 = Some False"
    by (simp add: row_team_sample determine_exact_sample)
  note f = normalize_row_matched [OF passes_samples(1) row_lookup_fuzzy df,
      of Map.empty Map.empty norm_state0]
  note e = normalize_row_matched [OF passes_samples(1) row_lookup_exact de,
      of Map.empty Map.empty norm_state0]
  show ?thesis
    by (simp add: name_of_samples determine_fuzzy_sample normalize_main_def normalize_rows_def
        f e norm_state0_simps)
qed

text \<open>
  C5, amended. A row whose game is found and whose team equals neither name of the game,
  but is contained in one of them after both are put in lower case, takes its side from
  that containment. It is written with the context of that game in every field: date, day,
  side, the two scores on the side of the team, the result they give, the spread turned to
  the side of the team, the total, the two outcomes, the flags, the weather, and the rest
  days of the side. It adds one to the matched counter; the unmatched counter and the list
  of unmatched examples stay as they were.
\<close>

theorem fuzzy_match_counted_as_matched:
  assumes "passes_guards stat"
    and "lookup_game gi (the (s_season stat)) (week_str_of (s_season_type stat) (the (s_week stat)))
           (the (TEAM_ABBREV_MAP (the (s_team stat)))) (opp_canonical_of (s_opponent_team stat)) = Some g"
    and "the (TEAM_ABBREV_MAP (the (s_team stat))) \<noteq> name_of (g_homeTeamCanonical g)"
    and "the (TEAM_ABBREV_MAP (the (s_team stat))) \<noteq> name_of (g_awayTeamCanonical g)"
    and "py_in (lower (the (TEAM_ABBREV_MAP (the (s_team stat))))) (lower (name_of (g_homeTeamCanonical g)))
         \<or> py_in (lower (the (TEAM_ABBREV_MAP (the (s_team stat))))) (lower (name_of (g_awayTeamCanonical g)))"
  shows "determine_is_home (the (TEAM_ABBREV_MAP (the (s_team stat)))) g
           = Some (py_in (lower (the (TEAM_ABBREV_MAP (the (s_team stat)))))
                     (lower (name_of (g_homeTeamCanonical g))))
    \<and> normalize_row mi si gi stat st
        = st\<lparr>matched := matched st + 1, results := results st @ [join_row mi si gi stat]\<rparr>
    \<and> matched (normalize_row mi si gi stat st) = matched st + 1
    \<and> unmatched (normalize_row mi si gi stat st) = unmatched st
    \<and> unmatched_examples (normalize_row mi si gi stat st) = unmatched_examples st
    \<and> (let h = py_in (lower (the (TEAM_ABBREV_MAP (the (s_team stat)))))
                  (lower (name_of (g_homeTeamCanonical g)));
           ts = (if h then jget (g_homeScore g) else jget (g_awayScore g));
           os = (if h then jget (g_awayScore g) else jget (g_homeScore g))
       in j_context (join_row mi si gi stat) =
           \<lparr>c_gameDate = jget (g_gameDate g),
            c_dayOfWeek = jget (g_dayOfWeek g),
            c_isHome = Some h,
            c_teamScore = ts,
            c_opponentScore = os,
            c_gameResult =
              (case ts of
                 None \<Rightarrow> None
               | Some t \<Rightarrow>
                   (case os of
                      None \<Rightarrow> None
                    | Some s \<Rightarrow> Some (if s < t then ''W'' else if t < s then ''L'' else ''T''))),
            c_spread = (case jget (g_spread g) of
                          None \<Rightarrow> None
                        | Some x \<Rightarrow> Some (if h then x else - x)),
            c_overUnder = jget (g_overUnder g),
            c_spreadResult = jget (g_spreadResult g),
            c_ouResult = jget (g_ouResult g),
            c_isPlayoff = jget_or False (g_isPlayoff g),
            c_isPrimetime = jget_or False (g_isPrimetime g),
            c_primetimeSlot = jget (g_primetimeSlot g),
            c_isNeutralSite = jget_or False (g_isNeutralSite g),
            c_temperature = jget (g_temperature g),
            c_windMph = jget (g_windMph g),
            c_weatherCategory = jget (g_weatherCategory g),
            c_restDays = (if h then jget (g_homeRestDays g) else jget (g_awayRestDays g)),
            c_isByeWeek = (if h then jget (g_homeIsByeWeek g) else jget (g_awayIsByeWeek g))\<rparr>)"
proof -
  define h where "h = py_in (lower (the (TEAM_ABBREV_MAP (the (s_team stat)))))
                        (lower (name_of (g_homeTeamCanonical g)))"
  from assms(3-5) have d: "determine_is_home (the (TEAM_ABBREV_MAP (the (s_team stat)))) g = Some h"
    by (auto simp: determine_is_home_def Let_def h_def)
  from assms(2) d have "j_context (join_row mi si gi stat) = matched_context g h"
    by (rule j_context_found)
  then have c: "(let ts = (if h then jget (g_homeScore g) else jget (g_awayScore g));
           os = (if h then jget (g_awayScore g) else jget (g_homeScore g))
       in j_context (join_row mi si gi stat) =
           \<lparr>c_gameDate = jget (g_gameDate g),
            c_dayOfWeek = jget (g_dayOfWeek g),
            c_isHome = Some h,
            c_teamScore = ts,
            c_opponentScore = os,
            c_gameResult =
              (case ts of
                 None \<Rightarrow> None
               | Some t \<Rightarrow>
                   (case os of
                      None \<Rightarrow> None
                    | Some s \<Rightarrow> Some (if s < t then ''W'' else if t < s then ''L'' else ''T''))),
            c_spread = (case jget (g_spread g) of
                          None \<Rightarrow> None
                        | Some x \<Rightarrow> Some (if h then x else - x)),
            c_overUnder = jget (g_overUnder g),
            c_spreadResult = jget (g_spreadResult g),
            c_ouResult = jget (g_ouResult g),
            c_isPlayoff = jget_or False (g_isPlayoff g),
            c_isPrimetime = jget_or False (g_isPrimetime g),
            c_primetimeSlot = jget (g_primetimeSlot g),
            c_isNeutralSite = jget_or False (g_isNeutralSite g),
            c_temperature = jget (g_temperature g),
            c_windMph = jget (g_windMph g),
            c_weatherCategory = jget (g_weatherCategory g),
            c_restDays = (if h then jget (g_homeRestDays g) else jget (g_awayRestDays g)),
            c_isByeWeek = (if h then jget (g_homeIsByeWeek g) else jget (g_awayIsByeWeek g))\<rparr>)"
    by (simp only: matched_context_fields Let_def)
  from normalize_row_matched [OF assms(1,2) d, of mi si st] d c show ?thesis
    unfolding h_def Let_def by simp
qed

theorem fuzzy_match_counted_as_matched_witness:
  "determine_is_home ''Buffalo Bills'' game_2024_spelled = Some False
   \<and> matched (normalize_row Map.empty Map.empty (build_game_index [game_2024_spelled])
        (stat_2024 ''BUF'' ''HOU'') norm_state0) = 1
   \<and> unmatched (normalize_row Map.empty Map.empty (build_game_index [game_2024_spelled])
        (stat_2024 ''BUF'' ''HOU'') norm_state0) = 0
   \<and> j_context (join_row Map.empty Map.empty (build_game_index [game_2024_spelled])
        (stat_2024 ''BUF'' ''HOU''))
       = \<lparr>c_gameDate = Some ''2024-10-06'', c_dayOfWeek = None, c_isHome = Some False,
          c_teamScore = Some 20, c_opponentScore = Some 23, c_gameResult = Some ''L'',
          c_spread = None, c_overUnder = Some 44, c_spreadResult = None,
          c_ouResult = None, c_isPlayoff = Some False, c_isPrimetime = Some False,
          c_primetimeSlot = None, c_isNeutralSite = Some False, c_temperature = None,
          c_windMph = None, c_weatherCategory = None, c_restDays = None,
          c_isByeWeek = None\<rparr>"
  using fuzzy_match_counted_as_matched [OF passes_samples(1) row_lookup_fuzzy,
      of Map.empty Map.empty norm_state0]
  by (simp add: row_team_sample name_of_samples lower_samples py_in_samples norm_state0_simps
      j_context_fuzzy)

section \<open>The context of a joined row\<close>

text \<open>
  C8, as stated, fails: a row of a playoff week for which no game is found is written with
  \<^verbatim>\<open>isPlayoff\<close> true and every other field of the context null. Its context is neither
  null in all fields nor read from a game.
\<close>

theorem context_all_or_nothing_counterexample:
  "results (normalize_main [stat_post] [] [] [game_2024])
     = [join_row Map.empty Map.empty (build_game_index [game_2024]) stat_post]
   \<and> j_context (join_row Map.empty Map.empty (build_game_index [game_2024]) stat_post)
       = unmatched_context (Some ''POST'')
   \<and> c_isPlayoff (j_context (join_row Map.empty Map.empty (build_game_index [game_2024]) stat_post))
       = Some True
   \<and> c_isHome (j_context (join_row Map.empty Map.empty (build_game_index [game_2024]) stat_post))
       = None
   \<and> c_teamScore (j_context (join_row Map.empty Map.empty (build_game_index [game_2024]) stat_post))
       = None
   \<and> (\<forall>g h. j_context (join_row Map.empty Map.empty (build_game_index [game_2024]) stat_post)
         \<noteq> matched_context g h)"
proof -
  note c = j_context_post
  have r: "results (normalize_main [stat_post] [] [] [game_2024])
     = [join_row Map.empty Map.empty (build_game_index [game_2024]) stat_post]"
    by (simp add: normalize_main_def results_normalize_rows norm_state0_simps passes_samples)
  have n: "c_isHome (unmatched_context (Some ''POST'')) \<noteq> c_isHome (matched_context g h)" for g h
    by (simp add: unmatched_context_def matched_context_def Let_def)
  then have "unmatched_context (Some ''POST'') \<noteq> matched_context g h" for g h
    by metis
  with c r show ?thesis
    by (simp add: unmatched_context_def)
qed

text \<open>
  C8, amended. The context of every row of the output is one of two. Either there is one
  game of the input, the game the lookup of the row finds, such that every field of the
  context is read from that game on the side that \<open>determine_is_home\<close> gives for the team
  of the row: date, day, side, the two scores, the result they give, the spread turned to
  the side of the team, the total, the two outcomes, the flags, the weather, the rest days
  of the side; a field is null where that game has it null. Or every field of the context
  is null except \<^verbatim>\<open>isPlayoff\<close>, which says whether the season type of the row is POST.
\<close>

theorem context_from_one_game:
  assumes "r \<in> set (results (normalize_main stats metadata snaps games))"
  shows "(\<exists>g \<in> set games. \<exists>h.
            lookup_game (build_game_index games) (the (j_season r))
                (week_str_of (j_season_type r) (the (j_week r))) (j_teamCanonical r)
                (j_opponentCanonical r) = Some g
            \<and> determine_is_home (j_teamCanonical r) g = Some h
            \<and> (let ts = (if h then jget (g_homeScore g) else jget (g_awayScore g));
                    os = (if h then jget (g_awayScore g) else jget (g_homeScore g))
                in j_context r =
                   \<lparr>c_gameDate = jget (g_gameDate g),
                    c_dayOfWeek = jget (g_dayOfWeek g),
                    c_isHome = Some h,
                    c_teamScore = ts,
                    c_opponentScore = os,
                    c_gameResult =
                      (case ts of
                         None \<Rightarrow> None
                       | Some t \<Rightarrow>
                           (case os of
                              None \<Rightarrow> None
                            | Some s \<Rightarrow> Some (if s < t then ''W'' else if t < s then ''L'' else ''T''))),
                    c_spread = (case jget (g_spread g) of
                                  None \<Rightarrow> None
                                | Some x \<Rightarrow> Some (if h then x else - x)),
                    c_overUnder = jget (g_overUnder g),
                    c_spreadResult = jget (g_spreadResult g),
                    c_ouResult = jget (g_ouResult g),
                    c_isPlayoff = jget_or False (g_isPlayoff g),
                    c_isPrimetime = jget_or False (g_isPrimetime g),
                    c_primetimeSlot = jget (g_primetimeSlot g),
                    c_isNeutralSite = jget_or False (g_isNeutralSite g),
                    c_temperature = jget (g_temperature g),
                    c_windMph = jget (g_windMph g),
                    c_weatherCategory = jget (g_weatherCategory g),
                    c_restDays = (if h then jget (g_homeRestDays g) else jget (g_awayRestDays g)),
                    c_isByeWeek = (if h then jget (g_homeIsByeWeek g) else jget (g_awayIsByeWeek g))\<rparr>))
         \<or> j_context r =
            \<lparr>c_gameDate = None, c_dayOfWeek = None, c_isHome = None, c_teamScore = None,
             c_opponentScore = None, c_gameResult = None, c_spread = None, c_overUnder = None,
             c_spreadResult = None, c_ouResult = None,
             c_isPlayoff = Some (j_season_type r = Some ''POST''),
             c_isPrimetime = None, c_primetimeSlot = None, c_isNeutralSite = None,
             c_temperature = None, c_windMph = None, c_weatherCategory = None,
             c_restDays = None, c_isByeWeek = None\<rparr>"
proof -
  define mi where "mi = fold index_meta metadata Map.empty"
  define si where "si = fold index_snap snaps Map.empty"
  from assms obtain stat where r: "r = join_row mi si (build_game_index games) stat"
    by (auto simp: normalize_main_def results_normalize_rows norm_state0_simps mi_def si_def)
  show ?thesis
  proof (cases "finds_game (build_game_index games) stat")
    case False
    then have "j_context r = unmatched_context (j_season_type r)"
      by (simp add: r j_context_not_found j_season_type_join_row)
    then show ?thesis
      by (simp add: unmatched_context_def)
  next
    case True
    then obtain g h where
      l: "lookup_game (build_game_index games) (the (s_season stat))
            (week_str_of (s_season_type stat) (the (s_week stat)))
            (the (TEAM_ABBREV_MAP (the (s_team stat)))) (opp_canonical_of (s_opponent_team stat))
          = Some g"
      and d: "determine_is_home (the (TEAM_ABBREV_MAP (the (s_team stat)))) g = Some h"
      unfolding finds_game_cases by blast
    from l obtain k where "build_game_index games k = Some g"
      using lookup_game_indexed by blast
    then have g: "g \<in> set games" by (rule build_game_index_member)
    from l d have "j_context r = matched_context g h"
      unfolding r by (rule j_context_found)
    then have c: "(let ts = (if h then jget (g_homeScore g) else jget (g_awayScore g));
                    os = (if h then jget (g_awayScore g) else jget (g_homeScore g))
                in j_context r =
                   \<lparr>c_gameDate = jget (g_gameDate g),
                    c_dayOfWeek = jget (g_dayOfWeek g),
                    c_isHome = Some h,
                    c_teamScore = ts,
                    c_opponentScore = os,
                    c_gameResult =
                      (case ts of
                         None \<Rightarrow> None
                       | Some t \<Rightarrow>
                           (case os of
                              None \<Rightarrow> None
                            | Some s \<Rightarrow> Some (if s < t then ''W'' else if t < s then ''L'' else ''T''))),
                    c_spread = (case jget (g_spread g) of
                                  None \<Rightarrow> None
                                | Some x \<Rightarrow> Some (if h then x else - x)),
                    c_overUnder = jget (g_overUnder g),
                    c_spreadResult = jget (g_spreadResult g),
                    c_ouResult = jget (g_ouResult g),
                    c_isPlayoff = jget_or False (g_isPlayoff g),
                    c_isPrimetime = jget_or False (g_isPrimetime g),
                    c_primetimeSlot = jget (g_primetimeSlot g),
                    c_isNeutralSite = jget_or False (g_isNeutralSite g),
                    c_temperature = jget (g_temperature g),
                    c_windMph = jget (g_windMph g),
                    c_weatherCategory = jget (g_weatherCategory g),
                    c_restDays = (if h then jget (g_homeRestDays g) else jget (g_awayRestDays g)),
                    c_isByeWeek = (if h then jget (g_homeIsByeWeek g) else jget (g_awayIsByeWeek g))\<rparr>)"
      by (simp only: matched_context_fields Let_def)
    from l have l': "lookup_game (build_game_index games) (the (j_season r))
                (week_str_of (j_season_type r) (the (j_week r))) (j_teamCanonical r)
                (j_opponentCanonical r) = Some g"
      by (simp add: r j_key_join_row j_season_type_join_row j_teamCanonical_join_row
          j_opponentCanonical_join_row)
    from d have d': "determine_is_home (j_teamCanonical r) g = Some h"
      by (simp add: r j_teamCanonical_join_row)
    from g l' d' c show ?thesis by blast
  qed
qed

theorem context_from_one_game_witness:
  "join_row Map.empty Map.empty (build_game_index [game_2024_lined]) (stat_2024 ''BUF'' ''HOU'')
     \<in> set (results (normalize_main [stat_2024 ''BUF'' ''HOU''] [] [] [game_2024_lined]))
   \<and> j_context (join_row Map.empty Map.empty (build_game_index [game_2024_lined])
        (stat_2024 ''BUF'' ''HOU''))
       = \<lparr>c_gameDate = Some ''2024-10-06'', c_dayOfWeek = None, c_isHome = Some False,
          c_teamScore = Some 20, c_opponentScore = Some 23, c_gameResult = Some ''L'',
          c_spread = Some 3, c_overUnder = Some 41, c_spreadResult = Some ''PUSH'',
          c_ouResult = Some ''OVER'', c_isPlayoff = Some False,
          c_isPrimetime = Some False, c_primetimeSlot = None,
          c_isNeutralSite = Some False, c_temperature = None, c_windMph = None,
          c_weatherCategory = None, c_restDays = Some 10, c_isByeWeek = None\<rparr>"
proof -
  have m: "join_row Map.empty Map.empty (build_game_index [game_2024_lined])
             (stat_2024 ''BUF'' ''HOU'')
     \<in> set (results (normalize_main [stat_2024 ''BUF'' ''HOU''] [] [] [game_2024_lined]))"
    by (simp add: normalize_main_def results_normalize_rows norm_state0_simps passes_samples)
  from context_from_one_game [OF m] show ?thesis
    by (simp add: m j_context_lined)
qed

end
